theory Spec2Isabelle
  imports Complex_Main "HOL-Library.Log_Nat"
begin

section \<open>JavaScript numbers and dates\<close>

text \<open>
  The route handlers compute with JavaScript Numbers (IEEE 754 binary64) and Date
  objects. A finite Number is modelled by the rational it denotes; \<open>fl64\<close> rounds
  a rational to the nearest binary64 value, ties to even, with gradual underflow.
  Overflow to Infinity (magnitudes from \<open>2^1024\<close>) is outside the model: every
  quantity below is a salary or a number of milliseconds.
\<close>

definition pow2 :: "int \<Rightarrow> rat" where
  "pow2 e = (if 0 \<le> e then 2 ^ nat e else 1 / 2 ^ nat (- e))"

text \<open>For \<open>0 < x\<close>, the exponent \<open>e\<close> with \<open>2^e \<le> x < 2^(e+1)\<close>.\<close>

definition floor_log2 :: "rat \<Rightarrow> int" where
  "floor_log2 x = (if 1 \<le> x then bitlen \<lfloor>x\<rfloor> - 1 else - bitlen (\<lceil>1 / x\<rceil> - 1))"

definition round_half_even :: "rat \<Rightarrow> int" where
  "round_half_even x =
     (let f = \<lfloor>x\<rfloor>; r = x - of_int f
      in if r < 1 / 2 then f else if 1 / 2 < r then f + 1 else if even f then f else f + 1)"

definition fl64 :: "rat \<Rightarrow> rat" where
  "fl64 x =
     (if x = 0 then 0
      else let e = max (floor_log2 \<bar>x\<bar>) (- 1022); u = pow2 (e - 52)
           in of_int (round_half_even (x / u)) * u)"

text \<open>
  \<^verbatim>\<open>x.toFixed(2)\<close>, as the decimal value of the string it returns: the integer
  \<open>n\<close> with \<open>n / 100\<close> nearest to \<open>x\<close>, the larger one on a tie, computed on the
  magnitude with the sign put back.
\<close>

definition toFixed2 :: "rat \<Rightarrow> rat" where
  "toFixed2 x =
     (if x < 0 then - (of_int \<lfloor>- x * 100 + 1 / 2\<rfloor> / 100)
      else of_int \<lfloor>x * 100 + 1 / 2\<rfloor> / 100)"

text \<open>
  \<^verbatim>\<open>(checkOutTime - checkInTime) / (1000 * 60 * 60)\<close>: the subtraction of two time
  values and the division are each rounded to binary64.
\<close>

definition hoursBetween :: "int \<Rightarrow> int \<Rightarrow> rat" where
  "hoursBetween checkOutTime checkInTime =
     fl64 (fl64 (of_int (checkOutTime - checkInTime)) / 3600000)"

subsection \<open>Dates\<close>

text \<open>
  A Date is its time value, milliseconds since the epoch. The host's time zone is a
  fixed offset \<open>tz\<close> (milliseconds east of UTC), so \<open>LocalTime t = t + tz\<close>; zones
  with daylight saving are outside the model. The day arithmetic is ECMAScript's.
\<close>

definition msPerDay :: int where
  "msPerDay = 86400000"

definition DayFromYear :: "int \<Rightarrow> int" where
  "DayFromYear y =
     365 * (y - 1970) + (y - 1969) div 4 - (y - 1901) div 100 + (y - 1601) div 400"

definition InLeapYear :: "int \<Rightarrow> bool" where
  "InLeapYear y = ((y mod 4 = 0 \<and> y mod 100 \<noteq> 0) \<or> y mod 400 = 0)"

text \<open>Day within the year of the first day of month \<open>mn\<close> (0 = January).\<close>

definition monthStartDay :: "int \<Rightarrow> bool \<Rightarrow> int" where
  "monthStartDay mn leap =
     (let l = (if leap then 1 else 0)
      in if mn = 0 then 0 else if mn = 1 then 31 else if mn = 2 then 59 + l
         else if mn = 3 then 90 + l else if mn = 4 then 120 + l else if mn = 5 then 151 + l
         else if mn = 6 then 181 + l else if mn = 7 then 212 + l else if mn = 8 then 243 + l
         else if mn = 9 then 273 + l else if mn = 10 then 304 + l else 334 + l)"

definition MakeDay :: "int \<Rightarrow> int \<Rightarrow> int \<Rightarrow> int" where
  "MakeDay yr mo dt =
     (let ym = yr + mo div 12; mn = mo mod 12
      in DayFromYear ym + monthStartDay mn (InLeapYear ym) + dt - 1)"

definition MakeTime :: "int \<Rightarrow> int \<Rightarrow> int \<Rightarrow> int \<Rightarrow> int" where
  "MakeTime h mi s ms = h * 3600000 + mi * 60000 + s * 1000 + ms"

definition MakeDate :: "int \<Rightarrow> int \<Rightarrow> int" where
  "MakeDate day time = day * msPerDay + time"

text \<open>An Invalid Date (time value NaN) is \<open>None\<close>.\<close>

definition TimeClip :: "int \<Rightarrow> int option" where
  "TimeClip t = (if \<bar>t\<bar> \<le> 8640000000000000 then Some t else None)"

text \<open>\<^verbatim>\<open>new Date(year, month, date)\<close>, in local time.\<close>

definition new_Date :: "int \<Rightarrow> int \<Rightarrow> int \<Rightarrow> int \<Rightarrow> int option" where
  "new_Date tz yr mo dt =
     (let yr' = (if 0 \<le> yr \<and> yr \<le> 99 then 1900 + yr else yr)
      in TimeClip (MakeDate (MakeDay yr' mo dt) 0 - tz))"

text \<open>\<^verbatim>\<open>d.setHours(h, mi, s, ms)\<close> on a valid Date, in local time.\<close>

definition setHours :: "int \<Rightarrow> int \<Rightarrow> int \<Rightarrow> int \<Rightarrow> int \<Rightarrow> int \<Rightarrow> int option" where
  "setHours tz t h mi s ms =
     TimeClip (MakeDate ((t + tz) div msPerDay) (MakeTime h mi s ms) - tz)"

subsection \<open>Template literals\<close>

fun show_nat :: "nat \<Rightarrow> string" where
  "show_nat n =
     (if n < 10 then [''0123456789'' ! n]
      else show_nat (n div 10) @ [''0123456789'' ! (n mod 10)])"

declare show_nat.simps [simp del]

definition show_int :: "int \<Rightarrow> string" where
  "show_int i = (if i < 0 then ''-'' @ show_nat (nat (- i)) else show_nat (nat i))"

section \<open>The data model\<close>

datatype att_status = present | absent | late | half_day

datatype pay_status = pending | paid

record employee =
  employee_id :: int
  firstName :: string
  lastName :: string
  salary :: rat

record attendance =
  attendance_id :: int
  attendance_employeeId :: int
  date :: int
  checkIn :: "int option"
  checkOut :: "int option"
  hoursWorked :: "rat option"
  attendance_status :: att_status
  attendance_notes :: "string option"

record payroll =
  payroll_id :: int
  payroll_employeeId :: int
  month :: int
  year :: int
  basicSalary :: rat
  allowances :: rat
  deductions :: rat
  netSalary :: rat
  workingDays :: nat
  payroll_status :: pay_status
  paidDate :: "int option"

text \<open>
  The database: one list of rows per table, and the auto-increment counter of the two
  tables the handlers insert into.
\<close>

record db =
  employee_tbl :: "employee list"
  attendance_tbl :: "attendance list"
  payroll_tbl :: "payroll list"
  attendance_autoinc :: int
  payroll_autoinc :: int

text \<open>
  The responses that are not a success: 400 with validation errors, 404
  \<^verbatim>\<open>Employee record not found\<close> / \<^verbatim>\<open>Employee not found\<close>, 400
  \<^verbatim>\<open>Already checked in today\<close>, 400 \<^verbatim>\<open>Please check in first\<close>, 400
  \<^verbatim>\<open>Already checked out today\<close>, 400 with the duplicate-payroll message, 404
  \<^verbatim>\<open>Payroll record not found\<close>, and 500 from the \<^verbatim>\<open>catch\<close> block.
\<close>

datatype error =
    ValidationError
  | EmployeeNotFound
  | AlreadyCheckedIn
  | NotCheckedIn
  | AlreadyCheckedOut
  | DuplicatePayroll string
  | NotFound
  | InternalError

text \<open>A field of a JSON request body that the handler passes on as it is.\<close>

datatype 'a js_field = Undefined | Null | Value 'a

subsection \<open>Queries\<close>

definition update_where :: "('a \<Rightarrow> bool) \<Rightarrow> ('a \<Rightarrow> 'a) \<Rightarrow> 'a list \<Rightarrow> 'a list" where
  "update_where P f rows = map (\<lambda>r. if P r then f r else r) rows"

definition employee_findUnique :: "db \<Rightarrow> int \<Rightarrow> employee option" where
  "employee_findUnique d eid = find (\<lambda>e. employee_id e = eid) (employee_tbl d)"

text \<open>\<^verbatim>\<open>findUnique({ where: { employeeId_date: { employeeId, date } } })\<close>\<close>

definition attendance_findUnique :: "db \<Rightarrow> int \<Rightarrow> int \<Rightarrow> attendance option" where
  "attendance_findUnique d eid day =
     find (\<lambda>a. attendance_employeeId a = eid \<and> date a = day) (attendance_tbl d)"

definition payroll_findFirst :: "db \<Rightarrow> int \<Rightarrow> int \<Rightarrow> int \<Rightarrow> payroll option" where
  "payroll_findFirst d eid m y =
     find (\<lambda>p. payroll_employeeId p = eid \<and> month p = m \<and> year p = y) (payroll_tbl d)"

definition payroll_findUnique :: "db \<Rightarrow> int \<Rightarrow> payroll option" where
  "payroll_findUnique d pid = find (\<lambda>p. payroll_id p = pid) (payroll_tbl d)"

text \<open>
  \<^verbatim>\<open>upsert\<close> on the compound key: the row with the key is updated, or a row is
  inserted under the next auto-increment id. Rows are returned without their included
  relations, and foreign keys are not checked.
\<close>

definition attendance_upsert ::
  "db \<Rightarrow> int \<Rightarrow> int \<Rightarrow> (attendance \<Rightarrow> attendance) \<Rightarrow> (int \<Rightarrow> attendance) \<Rightarrow> attendance \<times> db" where
  "attendance_upsert d eid day upd create =
     (case attendance_findUnique d eid day of
        Some a \<Rightarrow>
          (upd a,
           d\<lparr>attendance_tbl :=
               update_where (\<lambda>r. attendance_employeeId r = eid \<and> date r = day) upd
                 (attendance_tbl d)\<rparr>)
      | None \<Rightarrow>
          (let a = create (attendance_autoinc d + 1)
           in (a, d\<lparr>attendance_tbl := attendance_tbl d @ [a],
                     attendance_autoinc := attendance_autoinc d + 1\<rparr>)))"

section \<open>Attendance routes\<close>

text \<open>
  Every handler takes the database and returns the response with the database after the
  request. \<open>userEmployee\<close> is the id of the employee row of the authenticated user
  (\<^verbatim>\<open>user.employee\<close>), if there is one; \<open>t0\<close> and \<open>t1\<close> are the clock readings of
  the first and the later \<^verbatim>\<open>new Date()\<close> of the handler.
\<close>

subsection \<open>POST /api/attendance/checkin\<close>

definition checkin :: "int \<Rightarrow> int \<Rightarrow> int \<Rightarrow> int option \<Rightarrow> db \<Rightarrow> (error + attendance) \<times> db" where
  "checkin tz t0 t1 userEmployee d =
     (case userEmployee of
        None \<Rightarrow> (Inl EmployeeNotFound, d)
      | Some eid \<Rightarrow>
          (case setHours tz t0 0 0 0 0 of
             None \<Rightarrow> (Inl InternalError, d)
           | Some today \<Rightarrow>
               (let existing = attendance_findUnique d eid today
                in if (case existing of None \<Rightarrow> False | Some a \<Rightarrow> checkIn a \<noteq> None)
                   then (Inl AlreadyCheckedIn, d)
                   else (let (a, d') =
                           attendance_upsert d eid today
                             (\<lambda>r. r\<lparr>checkIn := Some t1, attendance_status := present\<rparr>)
                             (\<lambda>i. \<lparr>attendance_id = i, attendance_employeeId = eid,
                                   date = today, checkIn = Some t1, checkOut = None,
                                   hoursWorked = None, attendance_status = present,
                                   attendance_notes = None\<rparr>)
                         in (Inr a, d')))))"

subsection \<open>POST /api/attendance/checkout\<close>

definition checkout :: "int \<Rightarrow> int \<Rightarrow> int \<Rightarrow> int option \<Rightarrow> db \<Rightarrow> (error + attendance) \<times> db" where
  "checkout tz t0 t1 userEmployee d =
     (case userEmployee of
        None \<Rightarrow> (Inl EmployeeNotFound, d)
      | Some eid \<Rightarrow>
          (case setHours tz t0 0 0 0 0 of
             None \<Rightarrow> (Inl InternalError, d)
           | Some today \<Rightarrow>
               (case attendance_findUnique d eid today of
                  None \<Rightarrow> (Inl NotCheckedIn, d)
                | Some a \<Rightarrow>
                    (case checkIn a of
                       None \<Rightarrow> (Inl NotCheckedIn, d)
                     | Some checkInTime \<Rightarrow>
                         if checkOut a \<noteq> None then (Inl AlreadyCheckedOut, d)
                         else (let h = hoursBetween t1 checkInTime;
                                   upd = (\<lambda>r. r\<lparr>checkOut := Some t1,
                                                  hoursWorked := Some (toFixed2 h)\<rparr>)
                               in (Inr (upd a),
                                   d\<lparr>attendance_tbl :=
                                       update_where (\<lambda>r. attendance_id r = attendance_id a) upd
                                         (attendance_tbl d)\<rparr>))))))"

subsection \<open>POST /api/attendance\<close>

text \<open>
  The body after validation: \<open>req_date\<close> is the time value of \<^verbatim>\<open>new Date(date)\<close>;
  \<open>req_checkIn\<close> and \<open>req_checkOut\<close> are the time values of \<^verbatim>\<open>new Date(checkIn)\<close>
  and \<^verbatim>\<open>new Date(checkOut)\<close> when the field is supplied and truthy, \<open>None\<close>
  otherwise; \<open>req_notes\<close> is passed to the query as it came.
\<close>

record attendance_request =
  req_employeeId :: int
  req_date :: int
  req_checkIn :: "int option"
  req_checkOut :: "int option"
  req_status :: att_status
  req_notes :: "string js_field"

text \<open>
  \<^verbatim>\<open>hoursWorked ? hoursWorked.toFixed(2) : null\<close>, where \<^verbatim>\<open>hoursWorked\<close> is
  \<^verbatim>\<open>null\<close> unless both times are supplied. A Number is falsy when it is zero.
\<close>

definition hrHoursWorked :: "int option \<Rightarrow> int option \<Rightarrow> rat option" where
  "hrHoursWorked ci co =
     (case (ci, co) of
        (Some checkInTime, Some checkOutTime) \<Rightarrow>
          (let h = hoursBetween checkOutTime checkInTime
           in if h \<noteq> 0 then Some (toFixed2 h) else None)
      | _ \<Rightarrow> None)"

text \<open>
  In the data of an update an \<^verbatim>\<open>undefined\<close> field is left as it is, in the data
  of a create it takes the column's default, \<^verbatim>\<open>NULL\<close>.
\<close>

definition set_notes :: "string js_field \<Rightarrow> string option \<Rightarrow> string option" where
  "set_notes f old = (case f of Undefined \<Rightarrow> old | Null \<Rightarrow> None | Value s \<Rightarrow> Some s)"

definition upsertAttendance :: "int \<Rightarrow> attendance_request \<Rightarrow> db \<Rightarrow> (error + attendance) \<times> db" where
  "upsertAttendance tz req d =
     (case setHours tz (req_date req) 0 0 0 0 of
        None \<Rightarrow> (Inl InternalError, d)
      | Some attendanceDate \<Rightarrow>
          (let h = hrHoursWorked (req_checkIn req) (req_checkOut req);
               (a, d') =
                 attendance_upsert d (req_employeeId req) attendanceDate
                   (\<lambda>r. r\<lparr>checkIn := req_checkIn req, checkOut := req_checkOut req,
                          hoursWorked := h, attendance_status := req_status req,
                          attendance_notes := set_notes (req_notes req) (attendance_notes r)\<rparr>)
                   (\<lambda>i. \<lparr>attendance_id = i, attendance_employeeId = req_employeeId req,
                         date = attendanceDate, checkIn = req_checkIn req,
                         checkOut = req_checkOut req, hoursWorked = h,
                         attendance_status = req_status req,
                         attendance_notes = set_notes (req_notes req) None\<rparr>)
           in (Inr a, d')))"

section \<open>Payroll routes\<close>

subsection \<open>POST /api/payroll\<close>

record payroll_request =
  preq_employeeId :: int
  preq_month :: int
  preq_year :: int

text \<open>The message of the 400 response when the payroll exists.\<close>

definition duplicateMessage :: "db \<Rightarrow> payroll \<Rightarrow> int \<Rightarrow> int \<Rightarrow> string" where
  "duplicateMessage d existing m y =
     (let employeeName =
            (case employee_findUnique d (payroll_employeeId existing) of
               Some e \<Rightarrow> firstName e @ '' '' @ lastName e
             | None \<Rightarrow> ''Employee'')
      in ''Payroll for '' @ employeeName @ '' for '' @ show_int m @ ''/'' @ show_int y @
         '' already exists. Please check the payroll list or delete the existing record first.'')"

text \<open>
  The two bounds of the attendance query: \<^verbatim>\<open>new Date(year, month - 1, 1)\<close> and
  \<^verbatim>\<open>new Date(year, month, 0)\<close>, each followed by its \<^verbatim>\<open>setHours\<close>.
\<close>

definition startDate :: "int \<Rightarrow> int \<Rightarrow> int \<Rightarrow> int option" where
  "startDate tz y m =
     (case new_Date tz y (m - 1) 1 of None \<Rightarrow> None | Some t \<Rightarrow> setHours tz t 0 0 0 0)"

definition endDate :: "int \<Rightarrow> int \<Rightarrow> int \<Rightarrow> int option" where
  "endDate tz y m =
     (case new_Date tz y m 0 of None \<Rightarrow> None | Some t \<Rightarrow> setHours tz t 23 59 59 999)"

text \<open>
  The handler answers with the row that \<^verbatim>\<open>prisma.payroll.create\<close> returns. The four
  amounts are passed to it as Numbers, and the row carries what the database keeps of
  them; the column types and the conversion of a Number into a column are not part of
  the sources, so the value kept for a Number is a parameter, \<open>store\<close>.
\<close>

definition generatePayroll ::
  "(rat \<Rightarrow> rat) \<Rightarrow> int \<Rightarrow> payroll_request \<Rightarrow> db \<Rightarrow> (error + payroll) \<times> db" where
  "generatePayroll store tz req d =
     (let eid = preq_employeeId req; m = preq_month req; y = preq_year req
      in if \<not> (1 \<le> m \<and> m \<le> 12 \<and> 2000 \<le> y) then (Inl ValidationError, d)
         else
           (case payroll_findFirst d eid m y of
              Some existing \<Rightarrow> (Inl (DuplicatePayroll (duplicateMessage d existing m y)), d)
            | None \<Rightarrow>
                (case employee_findUnique d eid of
                   None \<Rightarrow> (Inl EmployeeNotFound, d)
                 | Some e \<Rightarrow>
                     (case (startDate tz y m, endDate tz y m) of
                        (Some s, Some t) \<Rightarrow>
                          (let att =
                                 filter
                                   (\<lambda>a. attendance_employeeId a = eid \<and> s \<le> date a \<and>
                                        date a \<le> t \<and> attendance_status a = present)
                                   (attendance_tbl d);
                               bs = fl64 (salary e);
                               al = fl64 (bs * fl64 (1 / 10));
                               de = fl64 (bs * fl64 (5 / 100));
                               ns = fl64 (fl64 (bs + al) - de);
                               p = \<lparr>payroll_id = payroll_autoinc d + 1,
                                    payroll_employeeId = eid, month = m, year = y,
                                    basicSalary = store bs, allowances = store al,
                                    deductions = store de, netSalary = store ns,
                                    workingDays = length att,
                                    payroll_status = pending, paidDate = None\<rparr>
                           in (Inr p, d\<lparr>payroll_tbl := payroll_tbl d @ [p],
                                         payroll_autoinc := payroll_autoinc d + 1\<rparr>))
                      | _ \<Rightarrow> (Inl InternalError, d)))))"

subsection \<open>PUT /api/payroll/:id/paid\<close>

text \<open>
  \<^verbatim>\<open>update\<close> on a missing id throws \<^verbatim>\<open>P2025\<close>, which the handler answers with
  404.
\<close>

definition markPaid :: "int \<Rightarrow> int \<Rightarrow> db \<Rightarrow> (error + payroll) \<times> db" where
  "markPaid now payrollId d =
     (case payroll_findUnique d payrollId of
        None \<Rightarrow> (Inl NotFound, d)
      | Some p \<Rightarrow>
          (let upd = (\<lambda>r. r\<lparr>payroll_status := paid, paidDate := Some now\<rparr>)
           in (Inr (upd p),
               d\<lparr>payroll_tbl :=
                   update_where (\<lambda>r. payroll_id r = payrollId) upd (payroll_tbl d)\<rparr>)))"

section \<open>The month window of the specification\<close>

text \<open>
  The calendar, independently of \<open>MakeDay\<close>: the length of each month, the day
  number (days since the epoch) of a calendar date as the days of the years and of the
  months before it, and the window from the first calendar day of a month at 00:00:00.000
  to its last calendar day at 23:59:59.999, local time.
\<close>

definition daysInMonth :: "int \<Rightarrow> int \<Rightarrow> int" where
  "daysInMonth y m =
     (if m = 2 then (if InLeapYear y then 29 else 28)
      else if m = 4 \<or> m = 6 \<or> m = 9 \<or> m = 11 then 30 else 31)"

definition dayNumber :: "int \<Rightarrow> int \<Rightarrow> int \<Rightarrow> int" where
  "dayNumber y m dd = DayFromYear y + sum_list (map (daysInMonth y) [1..m - 1]) + (dd - 1)"

definition windowStart :: "int \<Rightarrow> int \<Rightarrow> int \<Rightarrow> int" where
  "windowStart tz y m = dayNumber y m 1 * msPerDay - tz"

definition windowEnd :: "int \<Rightarrow> int \<Rightarrow> int \<Rightarrow> int" where
  "windowEnd tz y m =
     dayNumber y m (daysInMonth y m) * msPerDay +
       (23 * 3600000 + 59 * 60000 + 59 * 1000 + 999) - tz"

text \<open>The rows that count as working days of the employee in the month.\<close>

definition presentInWindow :: "int \<Rightarrow> int \<Rightarrow> int \<Rightarrow> int \<Rightarrow> attendance \<Rightarrow> bool" where
  "presentInWindow tz eid y m a =
     (attendance_employeeId a = eid \<and> attendance_status a = present \<and>
      windowStart tz y m \<le> date a \<and> date a \<le> windowEnd tz y m)"

section \<open>The duplicate-payroll message\<close>

text \<open>
  The text of the response for an employee, a month and a year, as the specification
  asks for it: it carries the employee's display name.
\<close>

definition duplicateText :: "employee \<Rightarrow> int \<Rightarrow> int \<Rightarrow> string" where
  "duplicateText e m y =
     ''Payroll for '' @ firstName e @ '' '' @ lastName e @ '' for '' @ show_int m @ ''/'' @
     show_int y @
     '' already exists. Please check the payroll list or delete the existing record first.''"

section \<open>A database that keeps sixteen digits\<close>

text \<open>
  The schema is not among the sources, so \<open>generatePayroll\<close> is stated for every
  store. The examples need one: here a decimal column takes the sixteen most
  significant decimal digits of a Number, and the response reads the column back as a
  Number and prints it with the fewest digits that denote it (the Number-to-String
  conversion of ECMAScript). With it a salary of 1234.56 gives the net salary 1296.288
  for the Number 1296.2879999999998 that the handler computes, and a salary of 0.07
  gives the allowances 0.007000000000000001 (\<open>payroll_1234_56\<close> and
  \<open>keep16_0_07\<close> below).
\<close>

definition pow10 :: "int \<Rightarrow> rat" where
  "pow10 e = (if 0 \<le> e then 10 ^ nat e else 1 / 10 ^ nat (- e))"

text \<open>The number of decimal digits of a positive integer.\<close>

function digits10 :: "int \<Rightarrow> int" where
  "digits10 n = (if 0 < n then digits10 (n div 10) + 1 else 0)"
  by pat_completeness auto

termination
  by (relation "measure nat") auto

declare digits10.simps [simp del]

text \<open>For \<open>0 < x\<close>, the exponent \<open>e\<close> with \<open>10^e \<le> x < 10^(e+1)\<close>.\<close>

definition floor_log10 :: "rat \<Rightarrow> int" where
  "floor_log10 x =
     (if 1 \<le> x then digits10 \<lfloor>x\<rfloor> - 1 else - digits10 (\<lceil>1 / x\<rceil> - 1))"

text \<open>The nearest decimal of \<open>p\<close> significant digits, ties to even.\<close>

definition round_sig :: "nat \<Rightarrow> rat \<Rightarrow> rat" where
  "round_sig p x =
     (if x = 0 then 0
      else let u = pow10 (floor_log10 \<bar>x\<bar> - int p + 1)
           in of_int (round_half_even (x / u)) * u)"

text \<open>
  The decimal of the fewest significant digits that rounds to the Number \<open>y\<close>;
  seventeen digits are enough for every Number.
\<close>

definition round_trips :: "rat \<Rightarrow> nat \<Rightarrow> bool" where
  "round_trips y p = (fl64 (round_sig p y) = y)"

definition shortest :: "rat \<Rightarrow> rat" where
  "shortest y =
     (case find (round_trips y) [1..<18] of
        Some p \<Rightarrow> round_sig p y
      | None \<Rightarrow> round_sig 17 y)"

definition keep16 :: "rat \<Rightarrow> rat" where
  "keep16 x = shortest (fl64 (round_sig 16 x))"

section \<open>Example data\<close>

text \<open>
  The three employees of the seed script, with no attendance and no payroll yet, and a
  host in Central Africa Time (UTC+2).
\<close>

definition CAT :: int where
  "CAT = 7200000"

definition john :: employee where
  "john = \<lparr>employee_id = 1, firstName = ''John'', lastName = ''Doe'', salary = 5000\<rparr>"

definition seed_db :: db where
  "seed_db =
     \<lparr>employee_tbl =
        [john,
         \<lparr>employee_id = 2, firstName = ''Jane'', lastName = ''Smith'', salary = 6000\<rparr>,
         \<lparr>employee_id = 3, firstName = ''Admin'', lastName = ''User'', salary = 7000\<rparr>],
      attendance_tbl = [], payroll_tbl = [],
      attendance_autoinc = 0, payroll_autoinc = 0\<rparr>"

text \<open>John Doe's payroll of February 2024, as generated on the seed database.\<close>

definition john_feb :: payroll where
  "john_feb =
     \<lparr>payroll_id = 1, payroll_employeeId = 1, month = 2, year = 2024,
      basicSalary = 5000, allowances = 500, deductions = 250, netSalary = 5250,
      workingDays = 0, payroll_status = pending, paidDate = None\<rparr>"

text \<open>
  Monday 5 February 2024 in that zone: local midnight, and John Doe's row of the day
  after he checked in at 08:00:00.005 and after he checked out at 16:30:00.005.
\<close>

definition feb5 :: int where
  "feb5 = 1707084000000"

definition john_feb5 :: attendance where
  "john_feb5 =
     \<lparr>attendance_id = 1, attendance_employeeId = 1, date = feb5,
      checkIn = Some 1707112800005, checkOut = None, hoursWorked = None,
      attendance_status = present, attendance_notes = None\<rparr>"

definition john_feb5_out :: attendance where
  "john_feb5_out = john_feb5\<lparr>checkOut := Some 1707143400005, hoursWorked := Some (17 / 2)\<rparr>"

definition checked_in_db :: db where
  "checked_in_db = seed_db\<lparr>attendance_tbl := [john_feb5], attendance_autoinc := 1\<rparr>"

definition checked_out_db :: db where
  "checked_out_db = seed_db\<lparr>attendance_tbl := [john_feb5_out], attendance_autoinc := 1\<rparr>"

text \<open>
  Requests of an HR manager for John Doe's row of that day (\<^verbatim>\<open>date: "2024-02-05"\<close>):
  one with check-in and check-out both at 08:00, one with check-in at 10:00 and
  check-out at 08:00, and one that marks him absent and sends no notes. The last meets a
  row that carries a note.
\<close>

definition hr_same :: attendance_request where
  "hr_same =
     \<lparr>req_employeeId = 1, req_date = 1707091200000, req_checkIn = Some 1707112800000,
      req_checkOut = Some 1707112800000, req_status = present, req_notes = Undefined\<rparr>"

definition hr_backwards :: attendance_request where
  "hr_backwards =
     \<lparr>req_employeeId = 1, req_date = 1707091200000, req_checkIn = Some 1707120000000,
      req_checkOut = Some 1707112800000, req_status = present, req_notes = Undefined\<rparr>"

definition hr_absent :: attendance_request where
  "hr_absent =
     \<lparr>req_employeeId = 1, req_date = 1707091200000, req_checkIn = None,
      req_checkOut = None, req_status = absent, req_notes = Undefined\<rparr>"

definition john_feb5_noted :: attendance where
  "john_feb5_noted = john_feb5_out\<lparr>attendance_notes := Some ''Client visit''\<rparr>"

definition noted_db :: db where
  "noted_db = seed_db\<lparr>attendance_tbl := [john_feb5_noted], attendance_autoinc := 1\<rparr>"

text \<open>
  Attendance around February 2024: John Doe present on 1 and 29 February, on 31 January
  and on 1 March, absent on 5 February, and Jane Smith present on 5 February; the last
  row is dated at the very end of the window, 29 February 23:59:59.999.
\<close>

definition att_row :: "int \<Rightarrow> int \<Rightarrow> int \<Rightarrow> att_status \<Rightarrow> attendance" where
  "att_row i eid day st =
     \<lparr>attendance_id = i, attendance_employeeId = eid, date = day, checkIn = None,
      checkOut = None, hoursWorked = None, attendance_status = st,
      attendance_notes = None\<rparr>"

definition feb_db :: db where
  "feb_db =
     seed_db\<lparr>attendance_tbl :=
               [att_row 1 1 1706652000000 present, att_row 2 1 1706738400000 present,
                att_row 3 1 feb5 absent, att_row 4 2 feb5 present,
                att_row 5 1 1709157600000 present, att_row 6 1 1709244000000 present,
                att_row 7 1 1709243999999 present],
             attendance_autoinc := 7\<rparr>"

definition feb_request :: payroll_request where
  "feb_request = \<lparr>preq_employeeId = 1, preq_month = 2, preq_year = 2024\<rparr>"


section \<open>Tables\<close>

lemma find_update_where:
  assumes "\<And>r. P (f r) = P r"
  shows "find P (update_where Q f rows) =
    (case find P rows of None \<Rightarrow> None | Some r \<Rightarrow> Some (if Q r then f r else r))"
  using assms by (induction rows) (auto simp: update_where_def)

lemma find_append_new: "find P rows = None \<Longrightarrow> P a \<Longrightarrow> find P (rows @ [a]) = Some a"
  by (induction rows) (auto split: if_splits)

lemma find_Some_P: "find P rows = Some a \<Longrightarrow> P a"
  by (induction rows) (auto split: if_splits)

section \<open>Marking a payroll paid\<close>

text \<open>
  C7. \<open>markPaid\<close> answers \<open>NotFound\<close>, and changes nothing, when no payroll has the
  id. Otherwise it returns the row with status \<open>paid\<close> and \<open>paidDate\<close> the time of
  the request, and stores it; a second request on the same id succeeds again, the
  status stays \<open>paid\<close> and \<open>paidDate\<close> is stamped anew.
\<close>

theorem markPaid_spec:
  "(payroll_findUnique d pid = None \<longrightarrow> markPaid now pid d = (Inl NotFound, d)) \<and>
   (\<forall>p. payroll_findUnique d pid = Some p \<longrightarrow>
      fst (markPaid now pid d) = Inr (p\<lparr>payroll_status := paid, paidDate := Some now\<rparr>) \<and>
      payroll_findUnique (snd (markPaid now pid d)) pid =
        Some (p\<lparr>payroll_status := paid, paidDate := Some now\<rparr>) \<and>
      (\<forall>now'. fst (markPaid now' pid (snd (markPaid now pid d))) =
         Inr (p\<lparr>payroll_status := paid, paidDate := Some now'\<rparr>)))"
proof -
  have upd: "payroll_findUnique (snd (markPaid t pid d')) pid =
        Some (p\<lparr>payroll_status := paid, paidDate := Some t\<rparr>) \<and>
      fst (markPaid t pid d') = Inr (p\<lparr>payroll_status := paid, paidDate := Some t\<rparr>)"
    if "payroll_findUnique d' pid = Some p" for d' p t
  proof -
    from that have "payroll_id p = pid"
      by (auto simp: payroll_findUnique_def dest: find_Some_P)
    with that show ?thesis
      by (simp add: markPaid_def payroll_findUnique_def find_update_where Let_def)
  qed
  show ?thesis
  proof (intro conjI allI impI)
    assume "payroll_findUnique d pid = None"
    then show "markPaid now pid d = (Inl NotFound, d)"
      by (simp add: markPaid_def)
  next
    fix p assume p: "payroll_findUnique d pid = Some p"
    from upd[OF p]
    show "fst (markPaid now pid d) = Inr (p\<lparr>payroll_status := paid, paidDate := Some now\<rparr>)"
      by simp
    from upd[OF p]
    show "payroll_findUnique (snd (markPaid now pid d)) pid =
        Some (p\<lparr>payroll_status := paid, paidDate := Some now\<rparr>)"
      by simp
  next
    fix p now' assume p: "payroll_findUnique d pid = Some p"
    from upd[OF p, of now]
    have "payroll_findUnique (snd (markPaid now pid d)) pid =
        Some (p\<lparr>payroll_status := paid, paidDate := Some now\<rparr>)"
      by simp
    from upd[OF this, of now']
    show "fst (markPaid now' pid (snd (markPaid now pid d))) =
         Inr (p\<lparr>payroll_status := paid, paidDate := Some now'\<rparr>)"
      by simp
  qed
qed

theorem markPaid_spec_witness:
  "payroll_findUnique (seed_db\<lparr>payroll_tbl := [john_feb]\<rparr>) 1 = Some john_feb \<and>
   fst (markPaid 1709280000000 1 (seed_db\<lparr>payroll_tbl := [john_feb]\<rparr>)) =
     Inr (john_feb\<lparr>payroll_status := paid, paidDate := Some 1709280000000\<rparr>) \<and>
   fst (markPaid 1709290000000 1
          (snd (markPaid 1709280000000 1 (seed_db\<lparr>payroll_tbl := [john_feb]\<rparr>)))) =
     Inr (john_feb\<lparr>payroll_status := paid, paidDate := Some 1709290000000\<rparr>) \<and>
   payroll_findUnique seed_db 1 = None \<and>
   markPaid 1709280000000 1 seed_db = (Inl NotFound, seed_db)"
proof -
  have a: "payroll_findUnique (seed_db\<lparr>payroll_tbl := [john_feb]\<rparr>) 1 = Some john_feb"
    by (simp add: payroll_findUnique_def john_feb_def)
  have b: "payroll_findUnique seed_db 1 = None"
    by (simp add: payroll_findUnique_def seed_db_def)
  from a b
    markPaid_spec[of "seed_db\<lparr>payroll_tbl := [john_feb]\<rparr>" 1 1709280000000]
    markPaid_spec[of seed_db 1 1709280000000]
  show ?thesis by simp
qed

lemma attendance_upsert_existing:
  assumes "attendance_findUnique d eid day = Some a"
    and "\<And>r. attendance_employeeId (upd r) = attendance_employeeId r \<and> date (upd r) = date r"
  shows "fst (attendance_upsert d eid day upd create) = upd a"
    and "attendance_findUnique (snd (attendance_upsert d eid day upd create)) eid day =
          Some (upd a)"
    and "length (attendance_tbl (snd (attendance_upsert d eid day upd create))) =
          length (attendance_tbl d)"
proof -
  from assms(1) have key: "attendance_employeeId a = eid \<and> date a = day"
    by (auto simp: attendance_findUnique_def dest: find_Some_P)
  show "fst (attendance_upsert d eid day upd create) = upd a"
    using assms(1) by (simp add: attendance_upsert_def)
  show "attendance_findUnique (snd (attendance_upsert d eid day upd create)) eid day =
      Some (upd a)"
    using assms key
    by (simp add: attendance_upsert_def attendance_findUnique_def find_update_where)
  show "length (attendance_tbl (snd (attendance_upsert d eid day upd create))) =
      length (attendance_tbl d)"
    using assms(1) by (simp add: attendance_upsert_def update_where_def)
qed

lemma attendance_upsert_new:
  assumes "attendance_findUnique d eid day = None"
    and "attendance_employeeId (create (attendance_autoinc d + 1)) = eid"
    and "date (create (attendance_autoinc d + 1)) = day"
  shows "fst (attendance_upsert d eid day upd create) = create (attendance_autoinc d + 1)"
    and "attendance_findUnique (snd (attendance_upsert d eid day upd create)) eid day =
          Some (create (attendance_autoinc d + 1))"
    and "attendance_tbl (snd (attendance_upsert d eid day upd create)) =
          attendance_tbl d @ [create (attendance_autoinc d + 1)]"
  using assms
  by (simp_all add: attendance_upsert_def attendance_findUnique_def find_append_new Let_def)

lemma feb5_midnight: "setHours CAT 1707112800000 0 0 0 0 = Some feb5"
  by (simp add: setHours_def CAT_def feb5_def TimeClip_def MakeDate_def MakeTime_def
      msPerDay_def)

section \<open>Check-in and check-out\<close>

text \<open>
  C5. On the day \<open>today\<close> of the request, \<open>checkout\<close> answers \<open>NotCheckedIn\<close>
  when the employee has no row for the day or the row has no \<open>checkIn\<close>, and
  \<open>AlreadyCheckedOut\<close> when the row has a \<open>checkIn\<close> and a \<open>checkOut\<close>; in each
  case the database is returned as it was.
\<close>

theorem checkout_errors:
  assumes "setHours tz t0 0 0 0 0 = Some today"
  shows "(attendance_findUnique d eid today = None \<longrightarrow>
            checkout tz t0 t1 (Some eid) d = (Inl NotCheckedIn, d)) \<and>
         (\<forall>a. attendance_findUnique d eid today = Some a \<and> checkIn a = None \<longrightarrow>
            checkout tz t0 t1 (Some eid) d = (Inl NotCheckedIn, d)) \<and>
         (\<forall>a. attendance_findUnique d eid today = Some a \<and> checkIn a \<noteq> None \<and>
              checkOut a \<noteq> None \<longrightarrow>
            checkout tz t0 t1 (Some eid) d = (Inl AlreadyCheckedOut, d))"
  using assms by (auto simp: checkout_def)

theorem checkout_errors_witness:
  "setHours CAT 1707112800000 0 0 0 0 = Some feb5 \<and>
   attendance_findUnique seed_db 1 feb5 = None \<and>
   checkout CAT 1707112800000 1707112800005 (Some 1) seed_db = (Inl NotCheckedIn, seed_db) \<and>
   attendance_findUnique (seed_db\<lparr>attendance_tbl := [john_feb5\<lparr>checkIn := None\<rparr>]\<rparr>) 1 feb5 =
     Some (john_feb5\<lparr>checkIn := None\<rparr>) \<and>
   checkout CAT 1707112800000 1707112800005 (Some 1)
       (seed_db\<lparr>attendance_tbl := [john_feb5\<lparr>checkIn := None\<rparr>]\<rparr>) =
     (Inl NotCheckedIn, seed_db\<lparr>attendance_tbl := [john_feb5\<lparr>checkIn := None\<rparr>]\<rparr>) \<and>
   attendance_findUnique checked_out_db 1 feb5 = Some john_feb5_out \<and>
   checkout CAT 1707112800000 1707112800005 (Some 1) checked_out_db =
     (Inl AlreadyCheckedOut, checked_out_db)"
proof -
  have a: "attendance_findUnique seed_db 1 feb5 = None"
    by (simp add: attendance_findUnique_def seed_db_def)
  have b: "attendance_findUnique (seed_db\<lparr>attendance_tbl := [john_feb5\<lparr>checkIn := None\<rparr>]\<rparr>) 1
      feb5 = Some (john_feb5\<lparr>checkIn := None\<rparr>)"
    by (simp add: attendance_findUnique_def john_feb5_def)
  have c: "attendance_findUnique checked_out_db 1 feb5 = Some john_feb5_out"
    by (simp add: attendance_findUnique_def checked_out_db_def john_feb5_out_def
        john_feb5_def)
  have c': "checkIn john_feb5_out \<noteq> None \<and> checkOut john_feb5_out \<noteq> None"
    by (simp add: john_feb5_out_def john_feb5_def)
  from a b c c'
    checkout_errors[OF feb5_midnight, of seed_db 1 1707112800005]
    checkout_errors[OF feb5_midnight,
      of "seed_db\<lparr>attendance_tbl := [john_feb5\<lparr>checkIn := None\<rparr>]\<rparr>" 1 1707112800005]
    checkout_errors[OF feb5_midnight, of checked_out_db 1 1707112800005]
  show ?thesis
    by (simp add: feb5_midnight)
qed

text \<open>
  C6. On the day \<open>today\<close> of the request, \<open>checkin\<close> answers \<open>AlreadyCheckedIn\<close>
  exactly when the employee's row for the day exists and has a \<open>checkIn\<close>, and then
  the database is unchanged. Otherwise the row of the day gets \<open>checkIn\<close> the time of
  the request and status \<open>present\<close>: the existing row keeps its other fields, and
  when there is none a row is created.
\<close>

theorem checkin_spec:
  assumes "setHours tz t0 0 0 0 0 = Some today"
  shows "(fst (checkin tz t0 t1 (Some eid) d) = Inl AlreadyCheckedIn \<longleftrightarrow>
            (\<exists>a. attendance_findUnique d eid today = Some a \<and> checkIn a \<noteq> None)) \<and>
         (fst (checkin tz t0 t1 (Some eid) d) = Inl AlreadyCheckedIn \<longrightarrow>
            snd (checkin tz t0 t1 (Some eid) d) = d) \<and>
         (\<forall>a. attendance_findUnique d eid today = Some a \<and> checkIn a = None \<longrightarrow>
            fst (checkin tz t0 t1 (Some eid) d) =
              Inr (a\<lparr>checkIn := Some t1, attendance_status := present\<rparr>) \<and>
            attendance_findUnique (snd (checkin tz t0 t1 (Some eid) d)) eid today =
              Some (a\<lparr>checkIn := Some t1, attendance_status := present\<rparr>)) \<and>
         (attendance_findUnique d eid today = None \<longrightarrow>
            fst (checkin tz t0 t1 (Some eid) d) =
              Inr \<lparr>attendance_id = attendance_autoinc d + 1, attendance_employeeId = eid,
                   date = today, checkIn = Some t1, checkOut = None, hoursWorked = None,
                   attendance_status = present, attendance_notes = None\<rparr> \<and>
            attendance_findUnique (snd (checkin tz t0 t1 (Some eid) d)) eid today =
              Some \<lparr>attendance_id = attendance_autoinc d + 1, attendance_employeeId = eid,
                   date = today, checkIn = Some t1, checkOut = None, hoursWorked = None,
                   attendance_status = present, attendance_notes = None\<rparr>)"
proof (intro conjI allI impI)
  show "fst (checkin tz t0 t1 (Some eid) d) = Inl AlreadyCheckedIn \<longleftrightarrow>
      (\<exists>a. attendance_findUnique d eid today = Some a \<and> checkIn a \<noteq> None)"
    using assms by (auto simp: checkin_def Let_def split: option.splits prod.splits)
next
  assume "fst (checkin tz t0 t1 (Some eid) d) = Inl AlreadyCheckedIn"
  then show "snd (checkin tz t0 t1 (Some eid) d) = d"
    using assms
    by (auto simp: checkin_def Let_def split: option.splits prod.splits if_splits)
next
  fix a assume a: "attendance_findUnique d eid today = Some a \<and> checkIn a = None"
  let ?upd = "\<lambda>r. r\<lparr>checkIn := Some t1, attendance_status := present\<rparr>"
  have pres:
    "\<And>r. attendance_employeeId (?upd r) = attendance_employeeId r \<and> date (?upd r) = date r"
    by simp
  from a assms attendance_upsert_existing(1)[of d eid today a ?upd, OF _ pres]
  show "fst (checkin tz t0 t1 (Some eid) d) =
      Inr (a\<lparr>checkIn := Some t1, attendance_status := present\<rparr>)"
    by (simp add: checkin_def Let_def split_beta)
  from a assms attendance_upsert_existing(2)[of d eid today a ?upd, OF _ pres]
  show "attendance_findUnique (snd (checkin tz t0 t1 (Some eid) d)) eid today =
      Some (a\<lparr>checkIn := Some t1, attendance_status := present\<rparr>)"
    by (simp add: checkin_def Let_def split_beta)
next
  assume n: "attendance_findUnique d eid today = None"
  let ?upd = "\<lambda>r. r\<lparr>checkIn := Some t1, attendance_status := present\<rparr>"
  let ?cr = "\<lambda>i. \<lparr>attendance_id = i, attendance_employeeId = eid,
      date = today, checkIn = Some t1, checkOut = None, hoursWorked = None,
      attendance_status = present, attendance_notes = None\<rparr>"
  from n assms attendance_upsert_new(1)[of d eid today ?cr ?upd]
  show "fst (checkin tz t0 t1 (Some eid) d) = Inr (?cr (attendance_autoinc d + 1))"
    by (simp add: checkin_def Let_def split_beta)
  from n assms attendance_upsert_new(2)[of d eid today ?cr ?upd]
  show "attendance_findUnique (snd (checkin tz t0 t1 (Some eid) d)) eid today =
      Some (?cr (attendance_autoinc d + 1))"
    by (simp add: checkin_def Let_def split_beta)
qed

theorem checkin_spec_witness:
  "setHours CAT 1707112800000 0 0 0 0 = Some feb5 \<and>
   attendance_findUnique seed_db 1 feb5 = None \<and>
   fst (checkin CAT 1707112800000 1707112800005 (Some 1) seed_db) = Inr john_feb5 \<and>
   attendance_findUnique (snd (checkin CAT 1707112800000 1707112800005 (Some 1) seed_db)) 1
     feb5 = Some john_feb5 \<and>
   attendance_findUnique checked_in_db 1 feb5 = Some john_feb5 \<and>
   fst (checkin CAT 1707112800000 1707112800005 (Some 1) checked_in_db) =
     Inl AlreadyCheckedIn \<and>
   snd (checkin CAT 1707112800000 1707112800005 (Some 1) checked_in_db) = checked_in_db"
proof -
  have a: "attendance_findUnique seed_db 1 feb5 = None"
    by (simp add: attendance_findUnique_def seed_db_def)
  have b: "attendance_findUnique checked_in_db 1 feb5 = Some john_feb5"
    by (simp add: attendance_findUnique_def checked_in_db_def john_feb5_def)
  have b': "checkIn john_feb5 \<noteq> None"
    by (simp add: john_feb5_def)
  have c: "attendance_autoinc seed_db = 0"
    by (simp add: seed_db_def)
  from a b b' c
    checkin_spec[OF feb5_midnight, of 1707112800005 1 seed_db]
    checkin_spec[OF feb5_midnight, of 1707112800005 1 checked_in_db]
  show ?thesis
    by (simp add: feb5_midnight john_feb5_def)
qed

section \<open>Attendance entered by HR\<close>

lemma fl64_zero: "fl64 0 = 0"
  by (simp add: fl64_def)

lemma hoursBetween_same: "hoursBetween t t = 0"
  by (simp add: hoursBetween_def fl64_zero)

lemma hrHoursWorked_same: "hrHoursWorked (Some t) (Some t) = None"
  by (simp add: hrHoursWorked_def hoursBetween_same)

lemma hrHoursWorked_absent: "hrHoursWorked None co = None" "hrHoursWorked ci None = None"
  by (simp_all add: hrHoursWorked_def split: option.splits)

lemma upsertAttendance_existing_row:
  assumes "setHours tz (req_date req) 0 0 0 0 = Some day"
    and "attendance_findUnique d (req_employeeId req) day = Some a"
  shows "fst (upsertAttendance tz req d) =
           Inr (a\<lparr>checkIn := req_checkIn req, checkOut := req_checkOut req,
                  hoursWorked := hrHoursWorked (req_checkIn req) (req_checkOut req),
                  attendance_status := req_status req,
                  attendance_notes := set_notes (req_notes req) (attendance_notes a)\<rparr>)"
    and "attendance_findUnique (snd (upsertAttendance tz req d)) (req_employeeId req) day =
           Some (a\<lparr>checkIn := req_checkIn req, checkOut := req_checkOut req,
                  hoursWorked := hrHoursWorked (req_checkIn req) (req_checkOut req),
                  attendance_status := req_status req,
                  attendance_notes := set_notes (req_notes req) (attendance_notes a)\<rparr>)"
proof -
  let ?upd = "\<lambda>r. r\<lparr>checkIn := req_checkIn req, checkOut := req_checkOut req,
      hoursWorked := hrHoursWorked (req_checkIn req) (req_checkOut req),
      attendance_status := req_status req,
      attendance_notes := set_notes (req_notes req) (attendance_notes r)\<rparr>"
  have pres:
    "\<And>r. attendance_employeeId (?upd r) = attendance_employeeId r \<and> date (?upd r) = date r"
    by simp
  note u = attendance_upsert_existing[of d "req_employeeId req" day a ?upd, OF assms(2) pres]
  from assms(1) u(1) show "fst (upsertAttendance tz req d) = Inr (?upd a)"
    by (simp add: upsertAttendance_def Let_def split_beta)
  from assms(1) u(2)
  show "attendance_findUnique (snd (upsertAttendance tz req d)) (req_employeeId req) day =
      Some (?upd a)"
    by (simp add: upsertAttendance_def Let_def split_beta)
qed

lemma upsertAttendance_new_row:
  assumes "setHours tz (req_date req) 0 0 0 0 = Some day"
    and "attendance_findUnique d (req_employeeId req) day = None"
  shows "fst (upsertAttendance tz req d) =
           Inr \<lparr>attendance_id = attendance_autoinc d + 1,
                attendance_employeeId = req_employeeId req, date = day,
                checkIn = req_checkIn req, checkOut = req_checkOut req,
                hoursWorked = hrHoursWorked (req_checkIn req) (req_checkOut req),
                attendance_status = req_status req,
                attendance_notes = set_notes (req_notes req) None\<rparr>"
    and "attendance_findUnique (snd (upsertAttendance tz req d)) (req_employeeId req) day =
           Some \<lparr>attendance_id = attendance_autoinc d + 1,
                attendance_employeeId = req_employeeId req, date = day,
                checkIn = req_checkIn req, checkOut = req_checkOut req,
                hoursWorked = hrHoursWorked (req_checkIn req) (req_checkOut req),
                attendance_status = req_status req,
                attendance_notes = set_notes (req_notes req) None\<rparr>"
proof -
  let ?upd = "\<lambda>r. r\<lparr>checkIn := req_checkIn req, checkOut := req_checkOut req,
      hoursWorked := hrHoursWorked (req_checkIn req) (req_checkOut req),
      attendance_status := req_status req,
      attendance_notes := set_notes (req_notes req) (attendance_notes r)\<rparr>"
  let ?cr = "\<lambda>i. \<lparr>attendance_id = i,
      attendance_employeeId = req_employeeId req, date = day,
      checkIn = req_checkIn req, checkOut = req_checkOut req,
      hoursWorked = hrHoursWorked (req_checkIn req) (req_checkOut req),
      attendance_status = req_status req,
      attendance_notes = set_notes (req_notes req) None\<rparr>"
  note u = attendance_upsert_new[of d "req_employeeId req" day ?cr ?upd, OF assms(2)]
  from assms(1) u(1)
  show "fst (upsertAttendance tz req d) = Inr (?cr (attendance_autoinc d + 1))"
    by (simp add: upsertAttendance_def Let_def split_beta)
  from assms(1) u(2)
  show "attendance_findUnique (snd (upsertAttendance tz req d)) (req_employeeId req) day =
      Some (?cr (attendance_autoinc d + 1))"
    by (simp add: upsertAttendance_def Let_def split_beta)
qed

lemma hr_day: "setHours CAT 1707091200000 0 0 0 0 = Some feb5"
  by (simp add: setHours_def CAT_def feb5_def TimeClip_def MakeDate_def MakeTime_def
      msPerDay_def)

text \<open>
  C9. When the body gives the same instant as \<open>checkIn\<close> and as \<open>checkOut\<close>,
  \<open>upsertAttendance\<close> succeeds and the row it stores, new or existing, has both
  times and \<open>hoursWorked\<close> null.
\<close>

theorem upsertAttendance_zero_duration:
  assumes "setHours tz (req_date req) 0 0 0 0 = Some day"
    and "req_checkIn req = Some t" and "req_checkOut req = Some t"
  shows "\<exists>a. fst (upsertAttendance tz req d) = Inr a \<and>
           attendance_findUnique (snd (upsertAttendance tz req d)) (req_employeeId req) day =
             Some a \<and>
           checkIn a = Some t \<and> checkOut a = Some t \<and> hoursWorked a = None"
proof (cases "attendance_findUnique d (req_employeeId req) day")
  case None
  from upsertAttendance_new_row[OF assms(1) None] assms(2,3) show ?thesis
    by (simp add: hrHoursWorked_same)
next
  case (Some a)
  from upsertAttendance_existing_row[OF assms(1) Some] assms(2,3) show ?thesis
    by (simp add: hrHoursWorked_same)
qed

theorem upsertAttendance_zero_duration_witness:
  "setHours CAT (req_date hr_same) 0 0 0 0 = Some feb5 \<and>
   req_checkIn hr_same = Some 1707112800000 \<and> req_checkOut hr_same = Some 1707112800000 \<and>
   (\<exists>a. fst (upsertAttendance CAT hr_same checked_out_db) = Inr a \<and>
      attendance_findUnique (snd (upsertAttendance CAT hr_same checked_out_db)) 1 feb5 =
        Some a \<and>
      checkIn a = Some 1707112800000 \<and> checkOut a = Some 1707112800000 \<and>
      hoursWorked a = None)"
proof -
  have a: "setHours CAT (req_date hr_same) 0 0 0 0 = Some feb5"
    by (simp add: hr_same_def hr_day)
  have b: "req_checkIn hr_same = Some 1707112800000"
    and c: "req_checkOut hr_same = Some 1707112800000"
    and e: "req_employeeId hr_same = 1"
    by (simp_all add: hr_same_def)
  from upsertAttendance_zero_duration[OF a b c, of checked_out_db] a b c e
  show ?thesis by simp
qed

text \<open>
  C10, as the code has it. When the row of (employee, day) exists,
  \<open>upsertAttendance\<close> overwrites \<open>checkIn\<close> and \<open>checkOut\<close> with the supplied time
  or null, and \<open>hoursWorked\<close> with the value computed from the two or null. The
  notes are overwritten when the body has the field, with its string or with null, and
  keep their stored value when the body has no \<open>notes\<close>.
\<close>

theorem upsertAttendance_overwrites:
  assumes "setHours tz (req_date req) 0 0 0 0 = Some day"
    and "attendance_findUnique d (req_employeeId req) day = Some a"
  shows "\<exists>a'. fst (upsertAttendance tz req d) = Inr a' \<and>
           attendance_findUnique (snd (upsertAttendance tz req d)) (req_employeeId req) day =
             Some a' \<and>
           checkIn a' = req_checkIn req \<and> checkOut a' = req_checkOut req \<and>
           hoursWorked a' = hrHoursWorked (req_checkIn req) (req_checkOut req) \<and>
           (req_checkIn req = None \<or> req_checkOut req = None \<longrightarrow> hoursWorked a' = None) \<and>
           attendance_notes a' =
             (case req_notes req of
                Undefined \<Rightarrow> attendance_notes a | Null \<Rightarrow> None | Value s \<Rightarrow> Some s)"
  using upsertAttendance_existing_row[OF assms]
  by (auto simp: set_notes_def hrHoursWorked_absent)

theorem upsertAttendance_overwrites_witness:
  "setHours CAT (req_date hr_absent) 0 0 0 0 = Some feb5 \<and>
   attendance_findUnique noted_db (req_employeeId hr_absent) feb5 = Some john_feb5_noted \<and>
   (\<exists>a'. fst (upsertAttendance CAT hr_absent noted_db) = Inr a' \<and>
      attendance_findUnique (snd (upsertAttendance CAT hr_absent noted_db)) 1 feb5 =
        Some a' \<and>
      checkIn a' = None \<and> checkOut a' = None \<and> hoursWorked a' = None \<and>
      attendance_notes a' = Some ''Client visit'')"
proof -
  have a: "setHours CAT (req_date hr_absent) 0 0 0 0 = Some feb5"
    by (simp add: hr_absent_def hr_day)
  have b: "attendance_findUnique noted_db (req_employeeId hr_absent) feb5 =
      Some john_feb5_noted"
    by (simp add: attendance_findUnique_def noted_db_def hr_absent_def john_feb5_noted_def
        john_feb5_out_def john_feb5_def)
  from upsertAttendance_overwrites[OF a b] a b
  show ?thesis
    by (simp add: hr_absent_def john_feb5_noted_def hrHoursWorked_absent)
qed

text \<open>
  The claim as it is written fails for the notes: the absent-marking request carries no
  \<open>notes\<close>, and the stored note survives it.
\<close>

theorem upsertAttendance_notes_kept:
  "attendance_findUnique noted_db 1 feb5 = Some john_feb5_noted \<and>
   attendance_notes john_feb5_noted = Some ''Client visit'' \<and>
   req_notes hr_absent = Undefined \<and>
   (case fst (upsertAttendance CAT hr_absent noted_db) of
      Inl e \<Rightarrow> None
    | Inr a' \<Rightarrow> attendance_notes a') = Some ''Client visit''"
proof -
  have a: "setHours CAT (req_date hr_absent) 0 0 0 0 = Some feb5"
    by (simp add: hr_absent_def hr_day)
  have b: "attendance_findUnique noted_db (req_employeeId hr_absent) feb5 =
      Some john_feb5_noted"
    by (simp add: attendance_findUnique_def noted_db_def hr_absent_def john_feb5_noted_def
        john_feb5_out_def john_feb5_def)
  from upsertAttendance_existing_row(1)[OF a b] b
  show ?thesis
    by (simp add: hr_absent_def john_feb5_noted_def set_notes_def)
qed

section \<open>The calendar\<close>

text \<open>
  A year has 365 days, or 366 when it is a leap year; with that, day 1 of month
  \<open>m - 1\<close> (counted from 0) is the first calendar day of month \<open>m\<close>, and day 0 of
  month \<open>m\<close> (counted from 0; month 12 is January of the next year) is its last.
\<close>

lemma div_add1:
  fixes a k :: int
  assumes "0 < k"
  shows "(a + 1) div k = a div k + (if (a + 1) mod k = 0 then 1 else 0)"
proof (cases "(a + 1) mod k = 0")
  case True
  then obtain q where q: "a + 1 = k * q" by (auto simp: mod_eq_0_iff_dvd)
  then have "a = k * (q - 1) + (k - 1)" by (simp add: algebra_simps)
  then have "a div k = q - 1"
    using assms int_div_pos_eq[of a k "q - 1" "k - 1"] by simp
  moreover from q assms have "(a + 1) div k = q" by simp
  ultimately show ?thesis using True by simp
next
  case False
  define r where "r = a mod k"
  have r: "0 \<le> r" "r < k" using assms by (simp_all add: r_def)
  have a: "a = k * (a div k) + r" by (simp add: r_def)
  have "r + 1 \<noteq> k"
  proof
    assume "r + 1 = k"
    then have "a + 1 = k * (a div k + 1)" using a by (simp add: algebra_simps)
    then have "(a + 1) mod k = 0" by (metis mod_mult_self1_is_0)
    with False show False by simp
  qed
  with r have "r + 1 < k" by simp
  moreover have "a + 1 = k * (a div k) + (r + 1)" using a by simp
  ultimately have "(a + 1) div k = a div k"
    using r int_div_pos_eq[of "a + 1" k "a div k" "r + 1"] by simp
  with False show ?thesis by simp
qed

lemma mod_shift:
  fixes y k c :: int
  shows "(y - k * c) mod k = 0 \<longleftrightarrow> y mod k = 0"
  by (metis mod_diff_right_eq zmod_eq_0_iff minus_int_code(1))

lemma mod_0_dvd:
  fixes y k n :: int
  shows "k dvd n \<Longrightarrow> y mod n = 0 \<Longrightarrow> y mod k = 0"
  by (metis mod_eq_0_iff_dvd mod_mod_trivial dvd_mod_iff)

lemma DayFromYear_Suc:
  "DayFromYear (y + 1) = DayFromYear y + (if InLeapYear y then 366 else 365)"
proof -
  have d4: "(y + 1 - 1969) div 4 = (y - 1969) div 4 + (if y mod 4 = 0 then 1 else 0)"
    using div_add1[of 4 "y - 1969"] mod_shift[of y 4 492] by simp
  have d100:
    "(y + 1 - 1901) div 100 = (y - 1901) div 100 + (if y mod 100 = 0 then 1 else 0)"
    using div_add1[of 100 "y - 1901"] mod_shift[of y 100 19] by simp
  have d400:
    "(y + 1 - 1601) div 400 = (y - 1601) div 400 + (if y mod 400 = 0 then 1 else 0)"
    using div_add1[of 400 "y - 1601"] mod_shift[of y 400 4] by simp
  have a: "y mod 400 = 0 \<Longrightarrow> y mod 100 = 0"
    using mod_0_dvd[of 100 400 y] by simp
  have b: "y mod 100 = 0 \<Longrightarrow> y mod 4 = 0"
    using mod_0_dvd[of 4 100 y] by simp
  show ?thesis
    unfolding DayFromYear_def InLeapYear_def d4 d100 d400
    using a b by auto
qed

lemma DayFromYear_epoch: "DayFromYear 1970 = 0"
  by (simp add: DayFromYear_def)

lemma month_cases:
  assumes "1 \<le> (m::int)" "m \<le> 12"
  shows "m = 1 \<or> m = 2 \<or> m = 3 \<or> m = 4 \<or> m = 5 \<or> m = 6 \<or> m = 7 \<or> m = 8 \<or>
    m = 9 \<or> m = 10 \<or> m = 11 \<or> m = 12"
  using assms by arith

lemma MakeDay_first:
  assumes "1 \<le> m" "m \<le> 12"
  shows "MakeDay y (m - 1) 1 = dayNumber y m 1"
  using month_cases[OF assms]
  by (elim disjE)
    (simp_all add: MakeDay_def dayNumber_def monthStartDay_def daysInMonth_def Let_def
      upto.simps)

lemma MakeDay_last:
  assumes "1 \<le> m" "m \<le> 12"
  shows "MakeDay y m 0 = dayNumber y m (daysInMonth y m)"
  using month_cases[OF assms]
  by (elim disjE)
    (simp_all add: MakeDay_def dayNumber_def monthStartDay_def daysInMonth_def Let_def
      DayFromYear_Suc upto.simps)

section \<open>The month window of the payroll\<close>

text \<open>
  The two bounds that \<open>generatePayroll\<close> builds are the window of the
  specification, when they are valid dates.
\<close>

lemma startDate_window:
  assumes "1 \<le> m" "m \<le> 12" "100 \<le> y"
  shows "startDate tz y m = TimeClip (windowStart tz y m)"
proof -
  have "(MakeDay y (m - 1) 1 * msPerDay - tz + tz) div msPerDay = MakeDay y (m - 1) 1"
    by (simp add: msPerDay_def)
  with assms show ?thesis
    by (simp add: startDate_def new_Date_def setHours_def MakeDate_def MakeTime_def
        windowStart_def MakeDay_first TimeClip_def)
qed

lemma endDate_window:
  assumes "1 \<le> m" "m \<le> 12" "100 \<le> y"
  shows "endDate tz y m =
    (if \<bar>dayNumber y m (daysInMonth y m) * msPerDay - tz\<bar> \<le> 8640000000000000
     then TimeClip (windowEnd tz y m) else None)"
proof -
  have "(MakeDay y m 0 * msPerDay - tz + tz) div msPerDay = MakeDay y m 0"
    by (simp add: msPerDay_def)
  with assms show ?thesis
    by (simp add: endDate_def new_Date_def setHours_def MakeDate_def MakeTime_def
        windowEnd_def MakeDay_last TimeClip_def)
qed

lemma startDate_Some:
  assumes "1 \<le> m" "m \<le> 12" "100 \<le> y" "startDate tz y m = Some s"
  shows "s = windowStart tz y m"
  using assms by (simp add: startDate_window TimeClip_def split: if_splits)

lemma endDate_Some:
  assumes "1 \<le> m" "m \<le> 12" "100 \<le> y" "endDate tz y m = Some t"
  shows "t = windowEnd tz y m"
  using assms by (simp add: endDate_window TimeClip_def split: if_splits)

lemma div_bounds:
  fixes a k :: int
  assumes "0 < k"
  shows "k * (a div k) \<le> a" and "a < k * (a div k) + k"
proof -
  have "a = k * (a div k) + a mod k" by simp
  moreover have "0 \<le> a mod k" "a mod k < k" using assms by simp_all
  ultimately show "k * (a div k) \<le> a" and "a < k * (a div k) + k" by linarith+
qed

lemma DayFromYear_bounds:
  assumes "2000 \<le> y" "y \<le> 275000"
  shows "0 \<le> DayFromYear y" "DayFromYear y \<le> 99929000"
proof -
  define q4 where "q4 = (y - 1969) div 4"
  define q100 where "q100 = (y - 1901) div 100"
  define q400 where "q400 = (y - 1601) div 400"
  have a: "4 * q4 \<le> y - 1969" "y - 1969 < 4 * q4 + 4"
    using div_bounds[of 4 "y - 1969"] by (simp_all add: q4_def)
  have b: "100 * q100 \<le> y - 1901" "y - 1901 < 100 * q100 + 100"
    using div_bounds[of 100 "y - 1901"] by (simp_all add: q100_def)
  have c: "400 * q400 \<le> y - 1601" "y - 1601 < 400 * q400 + 400"
    using div_bounds[of 400 "y - 1601"] by (simp_all add: q400_def)
  have eq: "DayFromYear y = 365 * (y - 1970) + q4 - q100 + q400"
    by (simp add: DayFromYear_def q4_def q100_def q400_def)
  have lo: "q100 \<le> y - 1970" "0 \<le> q4" "0 \<le> q400"
    using assms(1) a(2) b(1) c(2) by linarith+
  have hi: "0 \<le> q100" "q4 \<le> 68258" "q400 \<le> 684"
    using assms a(1) b(2) c(1) by linarith+
  from assms(1) lo show "0 \<le> DayFromYear y"
    unfolding eq by simp
  from assms(2) hi show "DayFromYear y \<le> 99929000"
    unfolding eq by simp
qed

lemma month_days_bounds:
  assumes "1 \<le> m" "m \<le> 12"
  shows "0 \<le> sum_list (map (daysInMonth y) [1..m - 1])"
    and "sum_list (map (daysInMonth y) [1..m - 1]) \<le> 335"
    and "1 \<le> daysInMonth y m" and "daysInMonth y m \<le> 31"
  using month_cases[OF assms]
  by (elim disjE; simp add: daysInMonth_def upto.simps)+

lemma window_in_range:
  assumes "1 \<le> m" "m \<le> 12" "2000 \<le> y" "y \<le> 275000" "\<bar>tz\<bar> \<le> msPerDay"
  shows "\<bar>windowStart tz y m\<bar> \<le> 8640000000000000"
    and "\<bar>dayNumber y m (daysInMonth y m) * msPerDay - tz\<bar> \<le> 8640000000000000"
    and "\<bar>windowEnd tz y m\<bar> \<le> 8640000000000000"
proof -
  note b = DayFromYear_bounds[OF assms(3,4)] month_days_bounds[OF assms(1,2), of y]
  have d1: "0 \<le> dayNumber y m 1" "dayNumber y m 1 \<le> 99929335"
    using b by (simp_all add: dayNumber_def)
  have d2: "0 \<le> dayNumber y m (daysInMonth y m)"
    "dayNumber y m (daysInMonth y m) \<le> 99929365"
    using b by (simp_all add: dayNumber_def)
  from d1 assms(5) show "\<bar>windowStart tz y m\<bar> \<le> 8640000000000000"
    by (simp add: windowStart_def msPerDay_def)
  from d2 assms(5)
  show "\<bar>dayNumber y m (daysInMonth y m) * msPerDay - tz\<bar> \<le> 8640000000000000"
    by (simp add: msPerDay_def)
  from d2 assms(5) show "\<bar>windowEnd tz y m\<bar> \<le> 8640000000000000"
    by (simp add: windowEnd_def msPerDay_def)
qed

lemma generatePayroll_Inr:
  assumes "generatePayroll store tz req d = (Inr p, d')"
  shows "\<exists>e s t.
    1 \<le> preq_month req \<and> preq_month req \<le> 12 \<and> 2000 \<le> preq_year req \<and>
    payroll_findFirst d (preq_employeeId req) (preq_month req) (preq_year req) = None \<and>
    employee_findUnique d (preq_employeeId req) = Some e \<and>
    startDate tz (preq_year req) (preq_month req) = Some s \<and>
    endDate tz (preq_year req) (preq_month req) = Some t \<and>
    p = \<lparr>payroll_id = payroll_autoinc d + 1, payroll_employeeId = preq_employeeId req,
         month = preq_month req, year = preq_year req,
         basicSalary = store (fl64 (salary e)),
         allowances = store (fl64 (fl64 (salary e) * fl64 (1 / 10))),
         deductions = store (fl64 (fl64 (salary e) * fl64 (5 / 100))),
         netSalary =
           store (fl64 (fl64 (fl64 (salary e) + fl64 (fl64 (salary e) * fl64 (1 / 10))) -
             fl64 (fl64 (salary e) * fl64 (5 / 100)))),
         workingDays =
           length (filter (\<lambda>a. attendance_employeeId a = preq_employeeId req \<and> s \<le> date a \<and>
               date a \<le> t \<and> attendance_status a = present) (attendance_tbl d)),
         payroll_status = pending, paidDate = None\<rparr> \<and>
    d' = d\<lparr>payroll_tbl := payroll_tbl d @ [p], payroll_autoinc := payroll_autoinc d + 1\<rparr>"
  using assms
  by (auto simp: generatePayroll_def Let_def split: if_splits option.splits)

lemma generatePayroll_ok:
  assumes "1 \<le> preq_month req" "preq_month req \<le> 12" "2000 \<le> preq_year req"
    and "payroll_findFirst d (preq_employeeId req) (preq_month req) (preq_year req) = None"
    and "employee_findUnique d (preq_employeeId req) = Some e"
    and "startDate tz (preq_year req) (preq_month req) = Some s"
    and "endDate tz (preq_year req) (preq_month req) = Some t"
  shows "\<exists>p. generatePayroll store tz req d =
    (Inr p, d\<lparr>payroll_tbl := payroll_tbl d @ [p], payroll_autoinc := payroll_autoinc d + 1\<rparr>)"
  using assms by (simp add: generatePayroll_def Let_def)

lemma show_2: "show_int 2 = ''2''"
  by (simp add: show_int_def show_nat.simps)

lemma show_2024: "show_int 2024 = ''2024''"
  by (simp add: show_int_def show_nat.simps)

lemma windowFeb:
  "windowStart CAT 2024 2 = 1706738400000" "windowEnd CAT 2024 2 = 1709243999999"
  by (simp_all add: windowStart_def windowEnd_def dayNumber_def DayFromYear_def
      daysInMonth_def InLeapYear_def msPerDay_def CAT_def upto.simps)

section \<open>Generating a payroll\<close>

text \<open>
  C1. Whenever \<open>generatePayroll\<close> creates a payroll, the \<open>workingDays\<close> of the
  stored row is the number of attendance rows of the employee with status
  \<open>present\<close> and a date in the month window, both bounds included. It does create
  one for a valid month and a year from 2000 to 275000, when the employee exists and has
  no payroll of that month yet.
\<close>

theorem generatePayroll_workingDays:
  "(generatePayroll store tz req d = (Inr p, d') \<longrightarrow>
      workingDays p =
        length (filter (presentInWindow tz (preq_employeeId req) (preq_year req)
                  (preq_month req)) (attendance_tbl d)) \<and>
      payroll_findFirst d' (preq_employeeId req) (preq_month req) (preq_year req) = Some p) \<and>
   (1 \<le> preq_month req \<and> preq_month req \<le> 12 \<and> 2000 \<le> preq_year req \<and>
    preq_year req \<le> 275000 \<and> \<bar>tz\<bar> \<le> msPerDay \<and>
    payroll_findFirst d (preq_employeeId req) (preq_month req) (preq_year req) = None \<and>
    employee_findUnique d (preq_employeeId req) \<noteq> None \<longrightarrow>
      (\<exists>q. generatePayroll store tz req d =
         (Inr q, d\<lparr>payroll_tbl := payroll_tbl d @ [q],
                   payroll_autoinc := payroll_autoinc d + 1\<rparr>)))"
proof (intro conjI impI)
  assume ok: "generatePayroll store tz req d = (Inr p, d')"
  from generatePayroll_Inr[OF ok] obtain e s t where
    v: "1 \<le> preq_month req" "preq_month req \<le> 12" "2000 \<le> preq_year req"
    and nf:
      "payroll_findFirst d (preq_employeeId req) (preq_month req) (preq_year req) = None"
    and s: "startDate tz (preq_year req) (preq_month req) = Some s"
    and t: "endDate tz (preq_year req) (preq_month req) = Some t"
    and wd: "workingDays p =
           length (filter (\<lambda>a. attendance_employeeId a = preq_employeeId req \<and> s \<le> date a \<and>
               date a \<le> t \<and> attendance_status a = present) (attendance_tbl d))"
    and key: "payroll_employeeId p = preq_employeeId req" "month p = preq_month req"
      "year p = preq_year req"
    and d':
      "d' = d\<lparr>payroll_tbl := payroll_tbl d @ [p], payroll_autoinc := payroll_autoinc d + 1\<rparr>"
    by auto
  from v have y: "100 \<le> preq_year req" by simp
  have s': "s = windowStart tz (preq_year req) (preq_month req)"
    using startDate_Some[OF v(1,2) y s] .
  have t': "t = windowEnd tz (preq_year req) (preq_month req)"
    using endDate_Some[OF v(1,2) y t] .
  have "(\<lambda>a. attendance_employeeId a = preq_employeeId req \<and> s \<le> date a \<and>
               date a \<le> t \<and> attendance_status a = present) =
        presentInWindow tz (preq_employeeId req) (preq_year req) (preq_month req)"
    by (auto simp: presentInWindow_def s' t' fun_eq_iff)
  with wd show "workingDays p =
        length (filter (presentInWindow tz (preq_employeeId req) (preq_year req)
                  (preq_month req)) (attendance_tbl d))"
    by simp
  from nf key
  show "payroll_findFirst d' (preq_employeeId req) (preq_month req) (preq_year req) = Some p"
    by (simp add: d' payroll_findFirst_def find_append_new)
next
  assume h: "1 \<le> preq_month req \<and> preq_month req \<le> 12 \<and> 2000 \<le> preq_year req \<and>
    preq_year req \<le> 275000 \<and> \<bar>tz\<bar> \<le> msPerDay \<and>
    payroll_findFirst d (preq_employeeId req) (preq_month req) (preq_year req) = None \<and>
    employee_findUnique d (preq_employeeId req) \<noteq> None"
  then obtain e where e: "employee_findUnique d (preq_employeeId req) = Some e" by auto
  from h have v: "1 \<le> preq_month req" "preq_month req \<le> 12" "2000 \<le> preq_year req"
    "preq_year req \<le> 275000" "\<bar>tz\<bar> \<le> msPerDay" by simp_all
  from v have y: "100 \<le> preq_year req" by simp
  note r = window_in_range[OF v]
  have s: "startDate tz (preq_year req) (preq_month req) =
      Some (windowStart tz (preq_year req) (preq_month req))"
    using r(1) by (simp add: startDate_window[OF v(1,2) y] TimeClip_def)
  have t: "endDate tz (preq_year req) (preq_month req) =
      Some (windowEnd tz (preq_year req) (preq_month req))"
    using r(2,3) by (simp add: endDate_window[OF v(1,2) y] TimeClip_def)
  from h have nf:
    "payroll_findFirst d (preq_employeeId req) (preq_month req) (preq_year req) = None"
    by simp
  from generatePayroll_ok[OF v(1,2,3) nf e s t]
  show "\<exists>q. generatePayroll store tz req d =
         (Inr q, d\<lparr>payroll_tbl := payroll_tbl d @ [q],
                   payroll_autoinc := payroll_autoinc d + 1\<rparr>)" .
qed

theorem generatePayroll_workingDays_witness:
  "1 \<le> preq_month feb_request \<and> preq_month feb_request \<le> 12 \<and>
   2000 \<le> preq_year feb_request \<and> preq_year feb_request \<le> 275000 \<and>
   \<bar>CAT\<bar> \<le> msPerDay \<and>
   payroll_findFirst feb_db (preq_employeeId feb_request) (preq_month feb_request)
     (preq_year feb_request) = None \<and>
   employee_findUnique feb_db (preq_employeeId feb_request) = Some john \<and>
   (\<exists>q. generatePayroll (\<lambda>x. x) CAT feb_request feb_db =
      (Inr q, feb_db\<lparr>payroll_tbl := payroll_tbl feb_db @ [q],
                    payroll_autoinc := payroll_autoinc feb_db + 1\<rparr>) \<and>
      workingDays q = 3)"
proof -
  have h: "1 \<le> preq_month feb_request \<and> preq_month feb_request \<le> 12 \<and>
      2000 \<le> preq_year feb_request \<and> preq_year feb_request \<le> 275000 \<and>
      \<bar>CAT\<bar> \<le> msPerDay \<and>
      payroll_findFirst feb_db (preq_employeeId feb_request) (preq_month feb_request)
        (preq_year feb_request) = None \<and>
      employee_findUnique feb_db (preq_employeeId feb_request) = Some john"
    by (simp add: feb_request_def feb_db_def seed_db_def john_def CAT_def msPerDay_def
        payroll_findFirst_def employee_findUnique_def)
  then obtain q where q: "generatePayroll (\<lambda>x. x) CAT feb_request feb_db =
      (Inr q, feb_db\<lparr>payroll_tbl := payroll_tbl feb_db @ [q],
                    payroll_autoinc := payroll_autoinc feb_db + 1\<rparr>)"
    using generatePayroll_workingDays[of "\<lambda>x. x" CAT feb_request feb_db] by auto
  have "length (filter (presentInWindow CAT (preq_employeeId feb_request)
      (preq_year feb_request) (preq_month feb_request)) (attendance_tbl feb_db)) = 3"
    by (simp add: feb_request_def feb_db_def presentInWindow_def windowFeb att_row_def
        feb5_def)
  with q generatePayroll_workingDays[of "\<lambda>x. x" CAT feb_request feb_db q]
  have "workingDays q = 3"
    by simp
  with h q show ?thesis by blast
qed

lemma generatePayroll_existing:
  assumes "1 \<le> preq_month req" "preq_month req \<le> 12" "2000 \<le> preq_year req"
    and "payroll_findFirst d (preq_employeeId req) (preq_month req) (preq_year req) =
      Some existing"
    and "employee_findUnique d (payroll_employeeId existing) = Some e"
  shows "generatePayroll store tz req d =
    (Inl (DuplicatePayroll (duplicateText e (preq_month req) (preq_year req))), d)"
  using assms
  by (simp add: generatePayroll_def Let_def duplicateMessage_def duplicateText_def)

lemma feb_bounds:
  "startDate CAT 2024 2 = Some 1706738400000" "endDate CAT 2024 2 = Some 1709243999999"
proof -
  have d: "dayNumber 2024 2 (daysInMonth 2024 2) = 19782"
    by (simp add: dayNumber_def DayFromYear_def daysInMonth_def InLeapYear_def upto.simps)
  show "startDate CAT 2024 2 = Some 1706738400000"
    by (simp add: startDate_window windowFeb TimeClip_def)
  have "\<bar>dayNumber 2024 2 (daysInMonth 2024 2) * msPerDay - CAT\<bar>
      \<le> 8640000000000000"
    by (simp add: d msPerDay_def CAT_def)
  then show "endDate CAT 2024 2 = Some 1709243999999"
    by (simp add: endDate_window windowFeb TimeClip_def)
qed

text \<open>
  C3. A valid request for an (employee, month, year) that has a payroll is answered with
  \<open>DuplicatePayroll\<close>, the message carries the first and last name of the payroll's
  employee, and the database is returned as it was. In particular, a request that
  created a payroll fails so when it is sent again.
\<close>

theorem generatePayroll_duplicate:
  "(1 \<le> preq_month req \<and> preq_month req \<le> 12 \<and> 2000 \<le> preq_year req \<and>
    payroll_findFirst d (preq_employeeId req) (preq_month req) (preq_year req) =
      Some existing \<and>
    employee_findUnique d (payroll_employeeId existing) = Some e \<longrightarrow>
      generatePayroll store tz req d =
        (Inl (DuplicatePayroll (duplicateText e (preq_month req) (preq_year req))), d)) \<and>
   (generatePayroll store tz req d = (Inr p, d') \<longrightarrow>
      (\<exists>e'. employee_findUnique d' (preq_employeeId req) = Some e' \<and>
         generatePayroll store tz req d' =
           (Inl (DuplicatePayroll (duplicateText e' (preq_month req) (preq_year req))), d')))"
proof (intro conjI impI)
  assume "1 \<le> preq_month req \<and> preq_month req \<le> 12 \<and> 2000 \<le> preq_year req \<and>
    payroll_findFirst d (preq_employeeId req) (preq_month req) (preq_year req) =
      Some existing \<and>
    employee_findUnique d (payroll_employeeId existing) = Some e"
  then show "generatePayroll store tz req d =
        (Inl (DuplicatePayroll (duplicateText e (preq_month req) (preq_year req))), d)"
    using generatePayroll_existing[of req d existing e store tz] by simp
next
  assume ok: "generatePayroll store tz req d = (Inr p, d')"
  from generatePayroll_Inr[OF ok] obtain e' where
    v: "1 \<le> preq_month req" "preq_month req \<le> 12" "2000 \<le> preq_year req"
    and nf:
      "payroll_findFirst d (preq_employeeId req) (preq_month req) (preq_year req) = None"
    and e': "employee_findUnique d (preq_employeeId req) = Some e'"
    and key: "payroll_employeeId p = preq_employeeId req" "month p = preq_month req"
      "year p = preq_year req"
    and d':
      "d' = d\<lparr>payroll_tbl := payroll_tbl d @ [p], payroll_autoinc := payroll_autoinc d + 1\<rparr>"
    by auto
  from nf key
  have f:
    "payroll_findFirst d' (preq_employeeId req) (preq_month req) (preq_year req) = Some p"
    by (simp add: d' payroll_findFirst_def find_append_new)
  from e' key have g: "employee_findUnique d' (payroll_employeeId p) = Some e'"
    by (simp add: d' employee_findUnique_def)
  from e' have g': "employee_findUnique d' (preq_employeeId req) = Some e'"
    by (simp add: d' employee_findUnique_def)
  from generatePayroll_existing[OF v f g, of store tz] g'
  show "\<exists>e'. employee_findUnique d' (preq_employeeId req) = Some e' \<and>
         generatePayroll store tz req d' =
           (Inl (DuplicatePayroll (duplicateText e' (preq_month req) (preq_year req))), d')"
    by simp
qed

theorem generatePayroll_duplicate_witness:
  "1 \<le> preq_month feb_request \<and> preq_month feb_request \<le> 12 \<and>
   2000 \<le> preq_year feb_request \<and>
   payroll_findFirst (seed_db\<lparr>payroll_tbl := [john_feb]\<rparr>) (preq_employeeId feb_request)
     (preq_month feb_request) (preq_year feb_request) = Some john_feb \<and>
   employee_findUnique (seed_db\<lparr>payroll_tbl := [john_feb]\<rparr>) (payroll_employeeId john_feb) =
     Some john \<and>
   generatePayroll (\<lambda>x. x) CAT feb_request (seed_db\<lparr>payroll_tbl := [john_feb]\<rparr>) =
     (Inl (DuplicatePayroll
        (''Payroll for John Doe for 2/2024 already exists. '' @
         ''Please check the payroll list or delete the existing record first.'')),
      seed_db\<lparr>payroll_tbl := [john_feb]\<rparr>) \<and>
   (\<exists>q d'. generatePayroll (\<lambda>x. x) CAT feb_request feb_db = (Inr q, d') \<and>
      generatePayroll (\<lambda>x. x) CAT feb_request d' =
        (Inl (DuplicatePayroll
           (''Payroll for John Doe for 2/2024 already exists. '' @
            ''Please check the payroll list or delete the existing record first.'')),
         d'))"
proof -
  have h: "1 \<le> preq_month feb_request \<and> preq_month feb_request \<le> 12 \<and>
      2000 \<le> preq_year feb_request \<and>
      payroll_findFirst (seed_db\<lparr>payroll_tbl := [john_feb]\<rparr>) (preq_employeeId feb_request)
        (preq_month feb_request) (preq_year feb_request) = Some john_feb \<and>
      employee_findUnique (seed_db\<lparr>payroll_tbl := [john_feb]\<rparr>)
        (payroll_employeeId john_feb) = Some john"
    by (simp add: feb_request_def seed_db_def john_def john_feb_def payroll_findFirst_def
        employee_findUnique_def)
  have t: "duplicateText john (preq_month feb_request) (preq_year feb_request) =
      ''Payroll for John Doe for 2/2024 already exists. '' @
      ''Please check the payroll list or delete the existing record first.''"
    by (simp add: duplicateText_def john_def feb_request_def show_2 show_2024)
  from h t
    generatePayroll_duplicate[of feb_request "seed_db\<lparr>payroll_tbl := [john_feb]\<rparr>" john_feb
      john "\<lambda>x. x" CAT]
  have first: "generatePayroll (\<lambda>x. x) CAT feb_request (seed_db\<lparr>payroll_tbl := [john_feb]\<rparr>) =
     (Inl (DuplicatePayroll
        (''Payroll for John Doe for 2/2024 already exists. '' @
         ''Please check the payroll list or delete the existing record first.'')),
      seed_db\<lparr>payroll_tbl := [john_feb]\<rparr>)"
    by simp
  have k: "1 \<le> preq_month feb_request" "preq_month feb_request \<le> 12"
    "2000 \<le> preq_year feb_request"
    "payroll_findFirst feb_db (preq_employeeId feb_request) (preq_month feb_request)
      (preq_year feb_request) = None"
    "employee_findUnique feb_db (preq_employeeId feb_request) = Some john"
    "startDate CAT (preq_year feb_request) (preq_month feb_request) = Some 1706738400000"
    "endDate CAT (preq_year feb_request) (preq_month feb_request) = Some 1709243999999"
    by (simp_all add: feb_request_def feb_db_def seed_db_def john_def payroll_findFirst_def
        employee_findUnique_def feb_bounds)
  from generatePayroll_ok[OF k] obtain q where
    q: "generatePayroll (\<lambda>x. x) CAT feb_request feb_db =
      (Inr q, feb_db\<lparr>payroll_tbl := payroll_tbl feb_db @ [q],
                    payroll_autoinc := payroll_autoinc feb_db + 1\<rparr>)"
    by blast
  let ?d = "feb_db\<lparr>payroll_tbl := payroll_tbl feb_db @ [q],
      payroll_autoinc := payroll_autoinc feb_db + 1\<rparr>"
  have e: "employee_findUnique ?d (preq_employeeId feb_request) = Some john"
    using k(5) by (simp add: employee_findUnique_def)
  from q e t generatePayroll_duplicate[of feb_request feb_db _ _ "\<lambda>x. x" CAT q ?d]
  have "generatePayroll (\<lambda>x. x) CAT feb_request ?d =
      (Inl (DuplicatePayroll
         (''Payroll for John Doe for 2/2024 already exists. '' @
          ''Please check the payroll list or delete the existing record first.'')), ?d)"
    by auto
  with q have second: "\<exists>q d'. generatePayroll (\<lambda>x. x) CAT feb_request feb_db = (Inr q, d') \<and>
      generatePayroll (\<lambda>x. x) CAT feb_request d' =
        (Inl (DuplicatePayroll
           (''Payroll for John Doe for 2/2024 already exists. '' @
            ''Please check the payroll list or delete the existing record first.'')),
         d')"
    by blast
  from h first second show ?thesis by blast
qed

section \<open>Rounding\<close>

text \<open>
  What the proofs need of binary64 rounding: \<open>floor_log2\<close> is the binary exponent,
  a value in the normal range is rounded with relative error at most \<open>2^-53\<close>, an
  integer below \<open>2^53\<close> in magnitude is a binary64 value, rounding keeps the sign,
  and \<open>toFixed2\<close> returns hundredths within half a hundredth of its argument.
\<close>

lemma pow2_powi: "pow2 e = power_int 2 e"
  by (simp add: pow2_def power_int_def power_one_over)

lemma pow2_pos: "0 < pow2 e"
  by (simp add: pow2_powi)

lemma pow2_add: "pow2 (a + b) = pow2 a * pow2 b"
  by (simp add: pow2_powi power_int_add)

lemma pow2_mono: "a \<le> b \<Longrightarrow> pow2 a \<le> pow2 b"
  by (simp add: pow2_powi power_int_increasing)

lemma pow2_nat: "0 \<le> e \<Longrightarrow> pow2 e = of_int (2 ^ nat e)"
  by (simp add: pow2_def)

lemma round_half_even_error: "\<bar>of_int (round_half_even x) - x\<bar> \<le> 1 / 2"
proof -
  have "of_int \<lfloor>x\<rfloor> \<le> x" "x < of_int \<lfloor>x\<rfloor> + 1" by linarith+
  then show ?thesis
    by (auto simp: round_half_even_def Let_def abs_le_iff)
qed

lemma round_half_even_of_int: "round_half_even (of_int k) = k"
  by (simp add: round_half_even_def)

lemma round_half_even_nonneg: "0 \<le> x \<Longrightarrow> 0 \<le> round_half_even x"
  by (auto simp: round_half_even_def Let_def)

lemma round_half_even_nonpos: "x \<le> 0 \<Longrightarrow> round_half_even x \<le> 0"
proof -
  assume x: "x \<le> 0"
  have f: "of_int \<lfloor>x\<rfloor> \<le> x" "x < of_int \<lfloor>x\<rfloor> + 1" by linarith+
  show ?thesis
  proof (cases "x = of_int \<lfloor>x\<rfloor>")
    case True
    with x have "\<lfloor>x\<rfloor> \<le> 0" by linarith
    with True show ?thesis by (simp add: round_half_even_def Let_def)
  next
    case False
    with f x have "of_int \<lfloor>x\<rfloor> < (0::rat)" by linarith
    then have "\<lfloor>x\<rfloor> + 1 \<le> 0" by linarith
    then show ?thesis by (auto simp: round_half_even_def Let_def)
  qed
qed

lemma floor_log2_bounds:
  assumes "0 < x"
  shows "pow2 (floor_log2 x) \<le> x" and "x < pow2 (floor_log2 x + 1)"
proof -
  have "pow2 (floor_log2 x) \<le> x \<and> x < pow2 (floor_log2 x + 1)"
  proof (cases "1 \<le> x")
    case True
    define n where "n = \<lfloor>x\<rfloor>"
    have n: "1 \<le> n" "of_int n \<le> x" "x < of_int n + 1"
      using True by (simp_all add: n_def le_floor_iff) linarith
    then have "0 < n" by simp
    from bitlen_bounds[OF this]
    have b: "2 ^ nat (bitlen n - 1) \<le> n" "n < 2 ^ nat (bitlen n)" by simp_all
    have b1: "1 \<le> bitlen n"
      using \<open>0 < n\<close> by (simp add: bitlen_alt_def)
    have e: "floor_log2 x = bitlen n - 1"
      using True by (simp add: floor_log2_def n_def)
    have lo: "pow2 (bitlen n - 1) \<le> x"
    proof -
      have "pow2 (bitlen n - 1) = of_int (2 ^ nat (bitlen n - 1))"
        using b1 by (simp add: pow2_nat)
      also have "\<dots> \<le> of_int n" using b(1) by (simp only: of_int_le_iff)
      finally show ?thesis using n(2) by simp
    qed
    have hi: "x < pow2 (bitlen n)"
    proof -
      have "n + 1 \<le> 2 ^ nat (bitlen n)" using b(2) by simp
      then have "(of_int (n + 1) :: rat) \<le> of_int (2 ^ nat (bitlen n))"
        by (simp only: of_int_le_iff)
      also have "\<dots> = pow2 (bitlen n)"
        using b1 by (simp add: pow2_nat)
      finally show ?thesis using n(3) by simp
    qed
    from lo hi show ?thesis by (simp add: e)
  next
    case False
    define y where "y = 1 / x"
    define m where "m = \<lceil>y\<rceil> - 1"
    have y1: "1 < y" using False assms by (simp add: y_def)
    have m: "1 \<le> m" "of_int m < y" "y \<le> of_int m + 1"
      using y1 by (simp_all add: m_def less_ceiling_iff) linarith+
    then have "0 < m" by simp
    from bitlen_bounds[OF this]
    have b: "2 ^ nat (bitlen m - 1) \<le> m" "m < 2 ^ nat (bitlen m)" by simp_all
    have b1: "1 \<le> bitlen m"
      using \<open>0 < m\<close> by (simp add: bitlen_alt_def)
    have e: "floor_log2 x = - bitlen m"
      using False by (simp add: floor_log2_def m_def y_def)
    have x: "x = 1 / y" using assms by (simp add: y_def)
    have lo: "pow2 (- bitlen m) \<le> x"
    proof -
      have "m + 1 \<le> 2 ^ nat (bitlen m)" using b(2) by simp
      then have "(of_int (m + 1) :: rat) \<le> of_int (2 ^ nat (bitlen m))"
        by (simp only: of_int_le_iff)
      with m(3) have "y \<le> 2 ^ nat (bitlen m)" by simp
      then have "1 / 2 ^ nat (bitlen m) \<le> 1 / y"
        using y1 by (intro divide_left_mono) simp_all
      then show ?thesis using b1 by (simp add: pow2_def x)
    qed
    have hi: "x < pow2 (- bitlen m + 1)"
    proof -
      have "(of_int (2 ^ nat (bitlen m - 1)) :: rat) \<le> of_int m"
        using b(1) by (simp only: of_int_le_iff)
      then have "(2::rat) ^ nat (bitlen m - 1) \<le> of_int m" by simp
      with m(2) have "2 ^ nat (bitlen m - 1) < y" by linarith
      then have "1 / y < 1 / 2 ^ nat (bitlen m - 1)"
        using y1 by (intro divide_strict_left_mono) simp_all
      moreover have "pow2 (- bitlen m + 1) = 1 / 2 ^ nat (bitlen m - 1)"
        using b1 by (cases "bitlen m = 1") (simp_all add: pow2_def)
      ultimately show ?thesis by (simp add: x)
    qed
    from lo hi show ?thesis by (simp add: e)
  qed
  then show "pow2 (floor_log2 x) \<le> x" and "x < pow2 (floor_log2 x + 1)" by simp_all
qed

lemma fl64_unfold:
  assumes "x \<noteq> 0"
  shows "fl64 x =
    of_int (round_half_even (x / pow2 (max (floor_log2 \<bar>x\<bar>) (- 1022) - 52))) *
      pow2 (max (floor_log2 \<bar>x\<bar>) (- 1022) - 52)"
  using assms by (simp add: fl64_def Let_def)

lemma fl64_ulp_error:
  assumes "x \<noteq> 0"
  shows "\<bar>fl64 x - x\<bar> \<le> pow2 (max (floor_log2 \<bar>x\<bar>) (- 1022) - 52) / 2"
proof -
  define u where "u = pow2 (max (floor_log2 \<bar>x\<bar>) (- 1022) - 52)"
  have u: "0 < u" by (simp add: u_def pow2_pos)
  have "fl64 x - x = (of_int (round_half_even (x / u)) - x / u) * u"
    using u by (simp add: fl64_unfold[OF assms] u_def[symmetric] algebra_simps)
  then have "\<bar>fl64 x - x\<bar> = \<bar>of_int (round_half_even (x / u)) - x / u\<bar> * u"
    using u by (simp add: abs_mult)
  also have "\<dots> \<le> (1 / 2) * u"
    using u round_half_even_error[of "x / u"] by (intro mult_right_mono) simp_all
  finally show ?thesis by (simp add: u_def)
qed

lemma floor_log2_normal:
  assumes "pow2 (- 1022) \<le> \<bar>x\<bar>"
  shows "- 1022 \<le> floor_log2 \<bar>x\<bar>"
proof (rule ccontr)
  assume "\<not> - 1022 \<le> floor_log2 \<bar>x\<bar>"
  then have "floor_log2 \<bar>x\<bar> + 1 \<le> - 1022" by simp
  then have "pow2 (floor_log2 \<bar>x\<bar> + 1) \<le> pow2 (- 1022)" by (rule pow2_mono)
  moreover have "0 < \<bar>x\<bar>" using assms pow2_pos[of "- 1022"] by linarith
  then have "\<bar>x\<bar> < pow2 (floor_log2 \<bar>x\<bar> + 1)" by (rule floor_log2_bounds)
  ultimately show False using assms by linarith
qed

lemma fl64_error:
  assumes "pow2 (- 1022) \<le> \<bar>x\<bar>"
  shows "\<bar>fl64 x - x\<bar> \<le> \<bar>x\<bar> / 2 ^ 53"
proof -
  have pos: "0 < \<bar>x\<bar>" using assms pow2_pos[of "- 1022"] by linarith
  then have nz: "x \<noteq> 0" by simp
  define e where "e = floor_log2 \<bar>x\<bar>"
  have m: "max e (- 1022) = e"
    using floor_log2_normal[OF assms] by (simp add: e_def)
  have "pow2 (e - 52) = pow2 e * pow2 (- 52)"
    using pow2_add[of e "- 52"] by simp
  also have "\<dots> \<le> \<bar>x\<bar> * pow2 (- 52)"
    using floor_log2_bounds(1)[OF pos] pow2_pos[of "- 52"]
    by (intro mult_right_mono) (simp_all add: e_def)
  finally have "pow2 (e - 52) / 2 \<le> \<bar>x\<bar> * pow2 (- 52) / 2" by simp
  also have "\<dots> = \<bar>x\<bar> / 2 ^ 53" by (simp add: pow2_def)
  finally show ?thesis
    using fl64_ulp_error[OF nz] by (simp add: e_def[symmetric] m)
qed

lemma fl64_nonneg: "0 \<le> x \<Longrightarrow> 0 \<le> fl64 x"
  by (cases "x = 0")
    (simp_all add: fl64_zero fl64_unfold round_half_even_nonneg pow2_pos less_imp_le)

lemma fl64_nonpos: "x \<le> 0 \<Longrightarrow> fl64 x \<le> 0"
proof (cases "x = 0")
  case True
  then show ?thesis by (simp add: fl64_zero)
next
  case False
  assume "x \<le> 0"
  define u where "u = pow2 (max (floor_log2 \<bar>x\<bar>) (- 1022) - 52)"
  have u: "0 < u" by (simp add: u_def pow2_pos)
  with \<open>x \<le> 0\<close> have "x / u \<le> 0" by (simp add: divide_nonpos_pos)
  then have "round_half_even (x / u) \<le> 0" by (rule round_half_even_nonpos)
  then have "(of_int (round_half_even (x / u)) :: rat) \<le> 0" by simp
  with u have "of_int (round_half_even (x / u)) * u \<le> 0"
    by (simp add: mult_nonpos_nonneg)
  then show ?thesis by (simp add: fl64_unfold[OF False] u_def)
qed

lemma fl64_of_int:
  assumes "\<bar>k\<bar> < 2 ^ 53"
  shows "fl64 (of_int k) = of_int k"
proof (cases "k = 0")
  case True
  then show ?thesis by (simp add: fl64_zero)
next
  case False
  define x :: rat where "x = of_int k"
  have nz: "x \<noteq> 0" using False by (simp add: x_def)
  have x1: "1 \<le> \<bar>x\<bar>"
  proof -
    from False have "1 \<le> \<bar>k\<bar>" by simp
    then have "(of_int 1 :: rat) \<le> of_int \<bar>k\<bar>" by (simp only: of_int_le_iff)
    then show ?thesis by (simp add: x_def)
  qed
  have x53: "\<bar>x\<bar> < pow2 53"
  proof -
    from assms have "(of_int \<bar>k\<bar> :: rat) < of_int (2 ^ 53)" by (simp only: of_int_less_iff)
    then show ?thesis by (simp add: x_def pow2_def)
  qed
  define e where "e = floor_log2 \<bar>x\<bar>"
  have pos: "0 < \<bar>x\<bar>" using x1 by linarith
  have e0: "0 \<le> e"
  proof (rule ccontr)
    assume "\<not> 0 \<le> e"
    then have "e + 1 \<le> 0" by simp
    then have "pow2 (e + 1) \<le> pow2 0" by (rule pow2_mono)
    with floor_log2_bounds(2)[OF pos] x1 show False by (simp add: e_def pow2_def)
  qed
  have e52: "e \<le> 52"
  proof (rule ccontr)
    assume "\<not> e \<le> 52"
    then have "53 \<le> e" by simp
    then have "pow2 53 \<le> pow2 e" by (rule pow2_mono)
    with floor_log2_bounds(1)[OF pos] x53 show False by (simp add: e_def)
  qed
  have m: "max e (- 1022) = e" using e0 by simp
  define j where "j = nat (52 - e)"
  have u: "pow2 (e - 52) = 1 / 2 ^ j"
    using e52 by (cases "e = 52") (simp_all add: pow2_def j_def)
  have "x / pow2 (e - 52) = of_int (k * 2 ^ j)"
    by (simp add: u x_def)
  then have "round_half_even (x / pow2 (e - 52)) = k * 2 ^ j"
    by (simp only: round_half_even_of_int)
  then have "fl64 x = of_int (k * 2 ^ j) * (1 / 2 ^ j)"
    by (simp add: fl64_unfold[OF nz] e_def[symmetric] m u)
  then show ?thesis by (simp add: x_def)
qed

lemma toFixed2_nearest:
  "\<exists>n::int. toFixed2 y = of_int n / 100 \<and> \<bar>of_int n - 100 * y\<bar> \<le> 1 / 2"
proof (cases "y < 0")
  case False
  define n where "n = \<lfloor>y * 100 + 1 / 2\<rfloor>"
  have "of_int n \<le> y * 100 + 1 / 2" "y * 100 + 1 / 2 < of_int n + 1"
    unfolding n_def by linarith+
  then have "\<bar>of_int n - 100 * y\<bar> \<le> 1 / 2" by linarith
  moreover have "toFixed2 y = of_int n / 100"
    using False by (simp add: toFixed2_def n_def)
  ultimately show ?thesis by blast
next
  case True
  define n where "n = \<lfloor>- y * 100 + 1 / 2\<rfloor>"
  have "of_int n \<le> - y * 100 + 1 / 2" "- y * 100 + 1 / 2 < of_int n + 1"
    unfolding n_def by linarith+
  then have "\<bar>- of_int n - 100 * y\<bar> \<le> 1 / 2" by linarith
  then have "\<bar>of_int (- n) - 100 * y\<bar> \<le> 1 / 2" by simp
  moreover have "toFixed2 y = of_int (- n) / 100"
    using True by (simp add: toFixed2_def n_def)
  ultimately show ?thesis by blast
qed

lemma toFixed2_nonneg: "0 \<le> y \<Longrightarrow> 0 \<le> toFixed2 y"
proof -
  assume "0 \<le> y"
  then have "0 \<le> \<lfloor>y * 100 + 1 / 2\<rfloor>" by simp
  with \<open>0 \<le> y\<close> show ?thesis by (simp add: toFixed2_def)
qed

lemma hours_rounded:
  assumes "\<bar>d\<bar> < 2 ^ 53"
  shows "\<exists>n::int. toFixed2 (fl64 (fl64 (of_int d) / 3600000)) = of_int n / 100 \<and>
    \<bar>(of_int n :: rat) / 100 - of_int d / 3600000\<bar> \<le> 1 / 200"
proof -
  define x :: rat where "x = of_int d / 3600000"
  define y where "y = fl64 x"
  have close: "\<bar>y - x\<bar> < 1 / 3600000"
  proof (cases "d = 0")
    case True
    then show ?thesis by (simp add: y_def x_def fl64_zero)
  next
    case False
    then have "1 \<le> \<bar>d\<bar>" by simp
    then have "(of_int 1 :: rat) \<le> of_int \<bar>d\<bar>" by (simp only: of_int_le_iff)
    then have lo: "1 / 3600000 \<le> \<bar>x\<bar>" by (simp add: x_def)
    have "pow2 (- 1022) \<le> pow2 (- 22)" by (rule pow2_mono) simp
    also have "\<dots> \<le> 1 / 3600000" by (simp add: pow2_def)
    finally have "pow2 (- 1022) \<le> \<bar>x\<bar>" using lo by simp
    then have e: "\<bar>y - x\<bar> \<le> \<bar>x\<bar> / 2 ^ 53" unfolding y_def by (rule fl64_error)
    from assms have "(of_int \<bar>d\<bar> :: rat) < of_int (2 ^ 53)" by (simp only: of_int_less_iff)
    then have "\<bar>x\<bar> < 2 ^ 53 / 3600000" by (simp add: x_def)
    then have "\<bar>x\<bar> / 2 ^ 53 < 1 / 3600000" by simp
    with e show ?thesis by simp
  qed
  from toFixed2_nearest[of y] obtain n :: int
    where n: "toFixed2 y = of_int n / 100" "\<bar>of_int n - 100 * y\<bar> \<le> 1 / 2"
    by blast
  have "\<bar>of_int n - 100 * x\<bar> < 1 / 2 + 1 / 36000"
    using n(2) close by linarith
  moreover have "of_int n - 100 * x = (of_int (36000 * n - d) :: rat) / 36000"
    by (simp add: x_def)
  ultimately have "\<bar>(of_int (36000 * n - d) :: rat)\<bar> < 18001"
    by simp
  then have "(of_int \<bar>36000 * n - d\<bar> :: rat) < of_int 18001"
    by simp
  then have "\<bar>36000 * n - d\<bar> < 18001" by (simp only: of_int_less_iff)
  then have "\<bar>36000 * n - d\<bar> \<le> 18000" by simp
  then have "(of_int \<bar>36000 * n - d\<bar> :: rat) \<le> of_int 18000" by (simp only: of_int_le_iff)
  then have "\<bar>(of_int (36000 * n - d) :: rat)\<bar> / 3600000 \<le> 1 / 200" by simp
  moreover have "(of_int n :: rat) / 100 - of_int d / 3600000 =
      of_int (36000 * n - d) / 3600000"
    by simp
  ultimately have "\<bar>(of_int n :: rat) / 100 - of_int d / 3600000\<bar> \<le> 1 / 200"
    by (simp only: abs_divide)
  moreover have "toFixed2 (fl64 (fl64 (of_int d) / 3600000)) = of_int n / 100"
    using n(1) fl64_of_int[OF assms] by (simp add: y_def x_def)
  ultimately show ?thesis by blast
qed

section \<open>Hours worked\<close>

text \<open>
  The hours of two ties: 1.005 hours are stored as 1.00 and 0.005 hours as 0.01, as the
  binary64 quotient lies below the first tie and above the second.
\<close>

lemma hr_backwards_hours:
  "hrHoursWorked (Some 1707120000000) (Some 1707112800000) = Some (- 2)"
  by code_simp

lemma tie_examples:
  "toFixed2 (hoursBetween 3618000 0) = 1" "toFixed2 (hoursBetween 18000 0) = 1 / 100"
  by code_simp+

lemma checkout_success:
  assumes "setHours tz t0 0 0 0 0 = Some today"
    and "attendance_findUnique d eid today = Some a"
    and "checkIn a = Some ci" and "checkOut a = None"
  shows "fst (checkout tz t0 t1 (Some eid) d) =
      Inr (a\<lparr>checkOut := Some t1, hoursWorked := Some (toFixed2 (hoursBetween t1 ci))\<rparr>)"
    and "attendance_findUnique (snd (checkout tz t0 t1 (Some eid) d)) eid today =
      Some (a\<lparr>checkOut := Some t1, hoursWorked := Some (toFixed2 (hoursBetween t1 ci))\<rparr>)"
proof -
  show "fst (checkout tz t0 t1 (Some eid) d) =
      Inr (a\<lparr>checkOut := Some t1, hoursWorked := Some (toFixed2 (hoursBetween t1 ci))\<rparr>)"
    using assms by (simp add: checkout_def Let_def)
  show "attendance_findUnique (snd (checkout tz t0 t1 (Some eid) d)) eid today =
      Some (a\<lparr>checkOut := Some t1, hoursWorked := Some (toFixed2 (hoursBetween t1 ci))\<rparr>)"
    using assms
    by (simp add: checkout_def Let_def attendance_findUnique_def find_update_where)
qed

text \<open>
  The elapsed milliseconds are below \<open>2^53\<close> for every valid Date as check-in, as
  long as the clock reads a time between 1970 and the year 10889.
\<close>

lemma elapsed_in_range:
  assumes "TimeClip ci = Some ci" and "0 \<le> t1" and "t1 < 2 ^ 48"
  shows "\<bar>t1 - ci\<bar> < 2 ^ 53"
  using assms by (simp add: TimeClip_def split: if_splits)

text \<open>
  C4. When the row of the day has a \<open>checkIn\<close> and no \<open>checkOut\<close>,
  \<open>checkout\<close> stores \<open>checkOut\<close> the time of the request and as
  \<open>hoursWorked\<close> a number of hundredths that is nearest to the elapsed time in hours:
  it differs from \<open>(checkOut - checkIn) / 3600000\<close> by at most half a hundredth. The
  elapsed milliseconds are taken below \<open>2^53\<close>, the range in which they are a
  binary64 value.
\<close>

theorem checkout_hoursWorked:
  assumes "setHours tz t0 0 0 0 0 = Some today"
    and "attendance_findUnique d eid today = Some a"
    and "checkIn a = Some ci" and "checkOut a = None"
    and "\<bar>t1 - ci\<bar> < 2 ^ 53"
  shows "\<exists>n::int.
      fst (checkout tz t0 t1 (Some eid) d) =
        Inr (a\<lparr>checkOut := Some t1, hoursWorked := Some (of_int n / 100)\<rparr>) \<and>
      attendance_findUnique (snd (checkout tz t0 t1 (Some eid) d)) eid today =
        Some (a\<lparr>checkOut := Some t1, hoursWorked := Some (of_int n / 100)\<rparr>) \<and>
      \<bar>(of_int n :: rat) / 100 - of_int (t1 - ci) / 3600000\<bar> \<le> 1 / 200"
proof -
  from hours_rounded[OF assms(5)] obtain n :: int where
    n: "toFixed2 (hoursBetween t1 ci) = of_int n / 100"
      "\<bar>(of_int n :: rat) / 100 - of_int (t1 - ci) / 3600000\<bar> \<le> 1 / 200"
    unfolding hoursBetween_def by blast
  from checkout_success[OF assms(1-4), of t1] n show ?thesis
    by auto
qed

theorem checkout_hoursWorked_witness:
  "setHours CAT 1707143400000 0 0 0 0 = Some feb5 \<and>
   attendance_findUnique checked_in_db 1 feb5 = Some john_feb5 \<and>
   checkIn john_feb5 = Some 1707112800005 \<and> checkOut john_feb5 = None \<and>
   \<bar>1707143400005 - 1707112800005\<bar> < (2::int) ^ 53 \<and>
   fst (checkout CAT 1707143400000 1707143400005 (Some 1) checked_in_db) = Inr john_feb5_out"
proof -
  have a: "setHours CAT 1707143400000 0 0 0 0 = Some feb5"
    by (simp add: setHours_def CAT_def feb5_def TimeClip_def MakeDate_def MakeTime_def
        msPerDay_def)
  have b: "attendance_findUnique checked_in_db 1 feb5 = Some john_feb5"
    by (simp add: attendance_findUnique_def checked_in_db_def john_feb5_def)
  have c: "checkIn john_feb5 = Some 1707112800005" "checkOut john_feb5 = None"
    by (simp_all add: john_feb5_def)
  have e: "\<bar>1707143400005 - 1707112800005\<bar> < (2::int) ^ 53"
    by simp
  from checkout_hoursWorked[OF a b c e] obtain n :: int where
    n: "fst (checkout CAT 1707143400000 1707143400005 (Some 1) checked_in_db) =
        Inr (john_feb5\<lparr>checkOut := Some 1707143400005,
               hoursWorked := Some (of_int n / 100)\<rparr>)"
      "\<bar>(of_int n :: rat) / 100 - of_int (1707143400005 - 1707112800005) / 3600000\<bar>
        \<le> 1 / 200"
    by blast
  from n(2) have "\<bar>(of_int n :: rat) / 100 - 17 / 2\<bar> \<le> 1 / 200" by simp
  then have "(of_int n :: rat) < 851" "(849 :: rat) < of_int n" by linarith+
  then have "(of_int n :: rat) < of_int 851" "(of_int 849 :: rat) < of_int n" by simp_all
  then have "n < 851" "849 < n" by (simp_all only: of_int_less_iff)
  then have "n = 850" by simp
  with n(1) have "fst (checkout CAT 1707143400000 1707143400005 (Some 1) checked_in_db) =
      Inr john_feb5_out"
    by (simp add: john_feb5_out_def)
  with a b c e show ?thesis by blast
qed

lemma hoursBetween_nonneg: "ci \<le> t1 \<Longrightarrow> 0 \<le> hoursBetween t1 ci"
  by (simp add: hoursBetween_def fl64_nonneg)

lemma hrHoursWorked_nonneg:
  assumes "i \<le> o'"
  shows "hrHoursWorked (Some i) (Some o') = None \<or>
    (\<exists>h. hrHoursWorked (Some i) (Some o') = Some h \<and> 0 \<le> h)"
  using hoursBetween_nonneg[OF assms]
  by (simp add: hrHoursWorked_def Let_def toFixed2_nonneg)

text \<open>
  C8, as the code has it. Neither route compares the two times. What holds is: when the
  check-out is not before the check-in, the \<open>hoursWorked\<close> that \<open>checkout\<close>
  stores is not negative, and the one that \<open>upsertAttendance\<close> stores is null or not
  negative.
\<close>

theorem hoursWorked_nonneg:
  "(setHours tz t0 0 0 0 0 = Some today \<and> attendance_findUnique d eid today = Some a \<and>
    checkIn a = Some ci \<and> checkOut a = None \<and> ci \<le> t1 \<longrightarrow>
      (\<exists>h. fst (checkout tz t0 t1 (Some eid) d) =
             Inr (a\<lparr>checkOut := Some t1, hoursWorked := Some h\<rparr>) \<and> 0 \<le> h)) \<and>
   (setHours tz (req_date req) 0 0 0 0 = Some day \<and> req_checkIn req = Some i \<and>
    req_checkOut req = Some o' \<and> i \<le> o' \<longrightarrow>
      (\<exists>r. fst (upsertAttendance tz req d) = Inr r \<and>
         attendance_findUnique (snd (upsertAttendance tz req d)) (req_employeeId req) day =
           Some r \<and>
         checkIn r = Some i \<and> checkOut r = Some o' \<and>
         (hoursWorked r = None \<or> (\<exists>h. hoursWorked r = Some h \<and> 0 \<le> h))))"
proof (intro conjI impI)
  assume h: "setHours tz t0 0 0 0 0 = Some today \<and>
    attendance_findUnique d eid today = Some a \<and>
    checkIn a = Some ci \<and> checkOut a = None \<and> ci \<le> t1"
  then have "0 \<le> toFixed2 (hoursBetween t1 ci)"
    by (simp add: toFixed2_nonneg hoursBetween_nonneg)
  with h checkout_success(1)[of tz t0 today d eid a ci t1]
  show "\<exists>h. fst (checkout tz t0 t1 (Some eid) d) =
             Inr (a\<lparr>checkOut := Some t1, hoursWorked := Some h\<rparr>) \<and> 0 \<le> h"
    by blast
next
  assume h: "setHours tz (req_date req) 0 0 0 0 = Some day \<and> req_checkIn req = Some i \<and>
    req_checkOut req = Some o' \<and> i \<le> o'"
  then have day: "setHours tz (req_date req) 0 0 0 0 = Some day" by simp
  from h hrHoursWorked_nonneg[of i o']
  have nn: "hrHoursWorked (req_checkIn req) (req_checkOut req) = None \<or>
    (\<exists>h. hrHoursWorked (req_checkIn req) (req_checkOut req) = Some h \<and> 0 \<le> h)"
    by simp
  show "\<exists>r. fst (upsertAttendance tz req d) = Inr r \<and>
         attendance_findUnique (snd (upsertAttendance tz req d)) (req_employeeId req) day =
           Some r \<and>
         checkIn r = Some i \<and> checkOut r = Some o' \<and>
         (hoursWorked r = None \<or> (\<exists>h. hoursWorked r = Some h \<and> 0 \<le> h))"
  proof (cases "attendance_findUnique d (req_employeeId req) day")
    case None
    from upsertAttendance_new_row[OF day None] h nn show ?thesis by simp
  next
    case (Some a)
    from upsertAttendance_existing_row[OF day Some] h nn show ?thesis by simp
  qed
qed

theorem hoursWorked_nonneg_witness:
  "setHours CAT 1707143400000 0 0 0 0 = Some feb5 \<and>
   attendance_findUnique checked_in_db 1 feb5 = Some john_feb5 \<and>
   checkIn john_feb5 = Some 1707112800005 \<and> checkOut john_feb5 = None \<and>
   (1707112800005::int) \<le> 1707143400005 \<and>
   (\<exists>h. fst (checkout CAT 1707143400000 1707143400005 (Some 1) checked_in_db) =
      Inr (john_feb5\<lparr>checkOut := Some 1707143400005, hoursWorked := Some h\<rparr>) \<and> 0 \<le> h) \<and>
   setHours CAT (req_date hr_same) 0 0 0 0 = Some feb5 \<and>
   req_checkIn hr_same = Some 1707112800000 \<and> req_checkOut hr_same = Some 1707112800000 \<and>
   (1707112800000::int) \<le> 1707112800000 \<and>
   (\<exists>r. fst (upsertAttendance CAT hr_same seed_db) = Inr r \<and>
      (hoursWorked r = None \<or> (\<exists>h. hoursWorked r = Some h \<and> 0 \<le> h)))"
proof -
  have a: "setHours CAT 1707143400000 0 0 0 0 = Some feb5"
    by (simp add: setHours_def CAT_def feb5_def TimeClip_def MakeDate_def MakeTime_def
        msPerDay_def)
  have b: "attendance_findUnique checked_in_db 1 feb5 = Some john_feb5"
    by (simp add: attendance_findUnique_def checked_in_db_def john_feb5_def)
  have c: "checkIn john_feb5 = Some 1707112800005" "checkOut john_feb5 = None"
    by (simp_all add: john_feb5_def)
  have e: "setHours CAT (req_date hr_same) 0 0 0 0 = Some feb5"
    by (simp add: hr_same_def hr_day)
  have f: "req_checkIn hr_same = Some 1707112800000"
    "req_checkOut hr_same = Some 1707112800000"
    by (simp_all add: hr_same_def)
  note t = hoursWorked_nonneg[of CAT 1707143400000 feb5 checked_in_db 1 john_feb5
      1707112800005 1707143400005 hr_same feb5 1707112800000 1707112800000]
  from t a b c have one:
    "\<exists>h. fst (checkout CAT 1707143400000 1707143400005 (Some 1) checked_in_db) =
      Inr (john_feb5\<lparr>checkOut := Some 1707143400005, hoursWorked := Some h\<rparr>) \<and> 0 \<le> h"
    by simp
  note t' = hoursWorked_nonneg[of CAT 1707143400000 feb5 seed_db 1 john_feb5
      1707112800005 1707143400005 hr_same feb5 1707112800000 1707112800000]
  from t' e f have two:
    "\<exists>r. fst (upsertAttendance CAT hr_same seed_db) = Inr r \<and>
      (hoursWorked r = None \<or> (\<exists>h. hoursWorked r = Some h \<and> 0 \<le> h))"
    by auto
  from a b c e f one two show ?thesis by simp
qed

text \<open>
  The claim as it is written fails: an HR entry with check-in at 10:00 and check-out at
  08:00 is stored with \<open>hoursWorked = -2\<close>.
\<close>

theorem hoursWorked_negative:
  "req_checkIn hr_backwards = Some 1707120000000 \<and>
   req_checkOut hr_backwards = Some 1707112800000 \<and>
   (case fst (upsertAttendance CAT hr_backwards seed_db) of
      Inl e \<Rightarrow> None
    | Inr r \<Rightarrow> hoursWorked r) = Some (- 2)"
proof -
  have a: "setHours CAT (req_date hr_backwards) 0 0 0 0 = Some feb5"
    by (simp add: hr_backwards_def hr_day)
  have b: "attendance_findUnique seed_db (req_employeeId hr_backwards) feb5 = None"
    by (simp add: attendance_findUnique_def seed_db_def)
  from upsertAttendance_new_row(1)[OF a b]
  show ?thesis
    by (simp add: hr_backwards_def hr_backwards_hours)
qed

section \<open>Sixteen digits\<close>

















lemma keep16_zero: "keep16 0 = 0"
  by (simp add: keep16_def round_sig_def fl64_def shortest_def round_trips_def upt_rec)



section \<open>The amounts of a payroll\<close>








text \<open>With the store of sixteen digits, the four amounts for a salary of 1234.56.\<close>

lemma payroll_1234_56:
  "keep16 (fl64 (123456 / 100)) = 123456 / 100"
  "keep16 (fl64 (fl64 (123456 / 100) * fl64 (1 / 10))) = 123456 / 1000"
  "keep16 (fl64 (fl64 (123456 / 100) * fl64 (5 / 100))) = 61728 / 1000"
  "keep16 (fl64 (fl64 (fl64 (123456 / 100) + fl64 (fl64 (123456 / 100) * fl64 (1 / 10))) -
     fl64 (fl64 (123456 / 100) * fl64 (5 / 100)))) = 1296288 / 1000"
  by code_simp+




end
